theory Spec2Isabelle
  imports Complex_Main "HOL-Library.Sublist" "HOL-Library.Monad_Syntax"
begin

section \<open>Python strings\<close>

text \<open>
  A Python \<open>str\<close> is modelled as a \<open>string\<close>; one \<open>char\<close> stands for one code point
  (so the model covers the code points below 256), and \<open>len\<close> is \<open>length\<close>.
  The test \<open>kw in text\<close> on two strings is \<^const>\<open>sublist\<close>: \<open>kw\<close> occurs in \<open>text\<close>
  as a contiguous run.
\<close>

text \<open>\<open>str.lower()\<close> on one code point below 256: the letters A-Z and the upper-case
  Latin-1 letters (0xC0-0xDE without the multiplication sign 0xD7) move up by 32.\<close>

definition lower_char :: "char \<Rightarrow> char" where
  "lower_char c =
     (let n = (of_char c :: nat)
      in if (65 \<le> n \<and> n \<le> 90) \<or> (192 \<le> n \<and> n \<le> 222 \<and> n \<noteq> 215)
         then char_of (n + 32) else c)"

definition py_lower :: "string \<Rightarrow> string" where
  "py_lower s = map lower_char s"

text \<open>\<open>sep.join(xs)\<close>\<close>

fun py_join :: "string \<Rightarrow> string list \<Rightarrow> string" where
  "py_join sep [] = []"
| "py_join sep [x] = x"
| "py_join sep (x # y # ys) = x @ sep @ py_join sep (y # ys)"


text \<open>\<open>str.isspace()\<close> on one code point below 256; \<open>str.strip()\<close> removes such code
  points from both ends.\<close>

definition isspace :: "char \<Rightarrow> bool" where
  "isspace c =
     (let n = (of_char c :: nat)
      in (9 \<le> n \<and> n \<le> 13) \<or> (28 \<le> n \<and> n \<le> 32) \<or> n = 133 \<or> n = 160)"

definition py_strip :: "string \<Rightarrow> string" where
  "py_strip s = rev (dropWhile isspace (rev (dropWhile isspace s)))"

text \<open>\<open>s.split(sep)\<close> scans from the left and cuts at every occurrence of \<open>sep\<close> that
  does not overlap the one before. \<open>cur\<close> is the piece being read. Every separator of the
  source is a non-empty literal (Python raises \<open>ValueError\<close> on an empty one).\<close>

function split_from :: "string \<Rightarrow> string \<Rightarrow> string \<Rightarrow> string list" where
  "split_from sep cur [] = [cur]"
| "split_from sep cur (c # cs) =
     (if sep \<noteq> [] \<and> prefix sep (c # cs)
      then cur # split_from sep [] (drop (length sep) (c # cs))
      else split_from sep (cur @ [c]) cs)"
  by pat_completeness auto
termination
  by (relation "measure (\<lambda>(sep, cur, s). length s)") (auto simp: Suc_diff_le)

definition py_split :: "string \<Rightarrow> string \<Rightarrow> string list" where
  "py_split s sep = split_from sep [] s"

text \<open>\<open>s.replace(old, new)\<close> for a non-empty \<open>old\<close>: the pieces between the occurrences of
  \<open>old\<close>, put together again with \<open>new\<close>.\<close>

definition py_replace :: "string \<Rightarrow> string \<Rightarrow> string \<Rightarrow> string" where
  "py_replace s old new = py_join new (py_split s old)"

text \<open>\<open>str(n)\<close> for an integer.\<close>

function str_nat :: "nat \<Rightarrow> string" where
  "str_nat n =
     (if n < 10 then [char_of (48 + n)] else str_nat (n div 10) @ [char_of (48 + n mod 10)])"
  by pat_completeness auto
termination
  by (relation "measure id") auto

definition str_int :: "int \<Rightarrow> string" where
  "str_int i = (if i < 0 then ''-'' @ str_nat (nat (- i)) else str_nat (nat i))"

section \<open>Values of \<open>json.loads\<close>\<close>

text \<open>
  What \<open>json.loads\<close> returns: \<open>None\<close>, a bool, an int, a float, a str, a list or a dict
  with str keys. A dict is the list of its items in insertion order. A float is kept as the
  text Python prints for it (\<open>repr\<close>), which together with its truth value (it is zero or
  not) is all the analyzer itself observes of a float.
\<close>

datatype json =
    JNull | JBool bool | JInt int | JFloat string | JStr string
  | JList "json list" | JObj "(string \<times> json) list"

type_synonym dict = "(string \<times> json) list"

text \<open>\<open>d.get(key)\<close> and \<open>d[key] = v\<close> (an existing key keeps its place, a new one goes
  last).\<close>

definition dict_get :: "dict \<Rightarrow> string \<Rightarrow> json" where
  "dict_get d key = (case map_of d key of None \<Rightarrow> JNull | Some v \<Rightarrow> v)"

fun dict_set :: "dict \<Rightarrow> string \<Rightarrow> json \<Rightarrow> dict" where
  "dict_set [] key v = [(key, v)]"
| "dict_set ((k, w) # d) key v = (if k = key then (k, v) # d else (k, w) # dict_set d key v)"

text \<open>The truth value of a value in \<open>if val:\<close>.\<close>

fun truthy :: "json \<Rightarrow> bool" where
  "truthy JNull = False"
| "truthy (JBool b) = b"
| "truthy (JInt i) = (i \<noteq> 0)"
| "truthy (JFloat r) = (r \<noteq> ''0.0'' \<and> r \<noteq> ''-0.0'')"
| "truthy (JStr s) = (s \<noteq> [])"
| "truthy (JList items) = (items \<noteq> [])"
| "truthy (JObj kvs) = (kvs \<noteq> [])"

text \<open>\<open>repr\<close> of a str: single quotes, unless the text holds a single quote and no double
  quote; the backslash, the chosen quote, tab, newline, carriage return and the code points
  that are not printable are escaped.\<close>

definition hex_digit :: "nat \<Rightarrow> char" where
  "hex_digit n = (if n < 10 then char_of (48 + n) else char_of (87 + n))"

definition repr_char :: "char \<Rightarrow> char \<Rightarrow> string" where
  "repr_char quote c =
     (let n = (of_char c :: nat)
      in if c = CHR 0x5C then [CHR 0x5C, CHR 0x5C]
         else if c = quote then [CHR 0x5C, quote]
         else if n = 9 then [CHR 0x5C, CHR ''t'']
         else if n = 10 then [CHR 0x5C, CHR ''n'']
         else if n = 13 then [CHR 0x5C, CHR ''r'']
         else if n < 32 \<or> (127 \<le> n \<and> n \<le> 160) \<or> n = 173
              then [CHR 0x5C, CHR ''x'', hex_digit (n div 16), hex_digit (n mod 16)]
         else [c])"

definition repr_str :: "string \<Rightarrow> string" where
  "repr_str s =
     (let quote = (if CHR 0x27 \<in> set s \<and> CHR 0x22 \<notin> set s then CHR 0x22 else CHR 0x27)
      in [quote] @ concat (map (repr_char quote) s) @ [quote])"

fun py_repr :: "json \<Rightarrow> string" where
  "py_repr JNull = ''None''"
| "py_repr (JBool b) = (if b then ''True'' else ''False'')"
| "py_repr (JInt i) = str_int i"
| "py_repr (JFloat r) = r"
| "py_repr (JStr s) = repr_str s"
| "py_repr (JList items) = ''['' @ py_join '', '' (map py_repr items) @ '']''"
| "py_repr (JObj kvs) =
     ''{'' @ py_join '', '' (map (\<lambda>(k, v). repr_str k @ '': '' @ py_repr v) kvs) @ ''}''"

text \<open>\<open>str(v)\<close>, also what an f-string puts for \<open>{v}\<close>.\<close>

definition py_str :: "json \<Rightarrow> string" where
  "py_str v = (case v of JStr s \<Rightarrow> s | _ \<Rightarrow> py_repr v)"

text \<open>\<open>type(v).__name__\<close>\<close>

fun type_name :: "json \<Rightarrow> string" where
  "type_name JNull = ''NoneType''"
| "type_name (JBool b) = ''bool''"
| "type_name (JInt i) = ''int''"
| "type_name (JFloat r) = ''float''"
| "type_name (JStr s) = ''str''"
| "type_name (JList items) = ''list''"
| "type_name (JObj kvs) = ''dict''"

text \<open>Exceptions, each with the text \<open>str(e)\<close> gives. All of them are subclasses of
  \<open>Exception\<close>; only the first is a \<open>json.JSONDecodeError\<close>.\<close>

datatype exn =
    JSONDecodeError string
  | AttributeError string
  | ValidationError string
  | IndexError string
  | KeyError string
  | OtherException string

fun str_exn :: "exn \<Rightarrow> string" where
  "str_exn (JSONDecodeError m) = m"
| "str_exn (AttributeError m) = m"
| "str_exn (ValidationError m) = m"
| "str_exn (IndexError m) = m"
| "str_exn (KeyError m) = m"
| "str_exn (OtherException m) = m"

section \<open>Clause tagger (app/ingest.py)\<close>

text \<open>\<open>CLAUSE_KEYWORDS\<close>: a dict literal, kept as the list of its items in insertion
  order, which is the order \<open>.items()\<close> iterates in.\<close>

definition CLAUSE_KEYWORDS :: "(string \<times> string list) list" where
  "CLAUSE_KEYWORDS =
    [(''termination'',
        [''terminate'', ''termination'', ''cancel'', ''cancellation'', ''rescind'',
         ''end of agreement'', ''convenience'', ''breach'', ''notice period'']),
     (''effective_date'',
        [''effective date'', ''commencement date'', ''start date'', ''dated as of'',
         ''made as of'', ''initial term'', ''expiration date'']),
     (''renewal'',
        [''renew'', ''renewal'', ''extension'', ''extend'', ''automatic renewal'',
         ''successive term'']),
     (''parties'',
        [''parties'', ''between'', ''among'', ''entered into by'', ''buyer'', ''seller'',
         ''provider'', ''customer'', ''licensor'', ''licensee'', ''grantor'', ''grantee'',
         ''landlord'', ''tenant'', ''contractor'']),
     (''governing_law'',
        [''governing law'', ''jurisdiction'', ''laws of'', ''venue'', ''courts of'',
         ''construed in accordance'', ''dispute resolution'', ''arbitration'']),
     (''confidentiality'',
        [''confidential'', ''confidentiality'', ''non-disclosure'', ''secrecy'',
         ''proprietary information'', ''trade secret'']),
     (''payment_terms'',
        [''payment'', ''fees'', ''invoice'', ''due date'', ''remittance'', ''pricing'',
         ''compensation'', ''royalties'', ''minimum commitment'']),
     (''liability'',
        [''liability'', ''indemnification'', ''damages'', ''limitation of liability'',
         ''hold harmless'', ''cap on liability'', ''liquidated damages'', ''warranty'']),
     (''license_ip'',
        [''license grant'', ''intellectual property'', ''ownership'', ''work for hire'',
         ''assignment'', ''patent'', ''trademark'', ''copyright'', ''source code'']),
     (''restrictive_covenants'',
        [''non-compete'', ''exclusivity'', ''non-solicit'', ''competitive restriction'',
         ''most favored nation'', ''territory''])]"

text \<open>The loop of \<open>detect_clause_types\<close> over the items of the table, with the list
  \<open>detected\<close> it appends to.\<close>

fun detect_loop :: "(string \<times> string list) list \<Rightarrow> string \<Rightarrow> string list \<Rightarrow> string list" where
  "detect_loop [] text_lower detected = detected"
| "detect_loop ((clause, keywords) # items) text_lower detected =
     detect_loop items text_lower
       (if list_ex (\<lambda>kw. sublist kw text_lower) keywords then detected @ [clause]
        else detected)"

definition detect_clause_types :: "string \<Rightarrow> string" where
  "detect_clause_types text =
     (let text_lower = py_lower text;
          detected = detect_loop CLAUSE_KEYWORDS text_lower []
      in if detected \<noteq> [] then py_join '','' detected else ''general'')"

text \<open>The phrase \<open>kw\<close> occurs in \<open>text\<close> when case is ignored: some contiguous run of
  \<open>text\<close> equals \<open>kw\<close> up to case.\<close>

definition occurs_ignoring_case :: "string \<Rightarrow> string \<Rightarrow> bool" where
  "occurs_ignoring_case kw text = (\<exists>u. sublist u text \<and> py_lower u = py_lower kw)"

section \<open>The extraction record (app/schemas.py)\<close>

record PaymentTerms =
  description :: "string option"
  due_date :: "string option"

record ContractSchema =
  doc_id :: "string option"
  parties :: "string option"
  effective_date :: "string option"
  termination_clause :: "string option"
  confidentiality_clause :: "string option"
  governing_law :: "string option"
  payment_terms :: "PaymentTerms option"
  risk_score :: "int option"
  "notes" :: "string option"

text \<open>
  \<open>ContractSchema(**kwargs)\<close> validates every field against its declared type and raises
  one \<open>ValidationError\<close> naming all fields that fail. What the declarations of
  \<open>schemas.py\<close> fix is modelled here: an absent key and \<open>None\<close> give \<open>None\<close>; a str is
  accepted for a str field, an int for the int field and a dict for \<open>payment_terms\<close>; a
  list or dict is refused for a str or int field, and a number or bool for
  \<open>payment_terms\<close>; keys that are no field are ignored. For the remaining inputs the
  conversion depends on the installed version of the validation library, so it is a
  parameter, as is the text of the error message.
\<close>

record lib =
  lax_str :: "json \<Rightarrow> string option"
  lax_int :: "json \<Rightarrow> int option"
  lax_model :: "json \<Rightarrow> dict option"
  error_text :: "string list \<Rightarrow> string"

text \<open>The result of validating one field: \<open>None\<close> when the input is refused, \<open>Some v\<close>
  with the field's value \<open>v\<close> (itself optional) otherwise.\<close>

definition validate_str :: "lib \<Rightarrow> json option \<Rightarrow> string option option" where
  "validate_str L v =
     (case v of
        None \<Rightarrow> Some None
      | Some JNull \<Rightarrow> Some None
      | Some (JStr s) \<Rightarrow> Some (Some s)
      | Some (JList items) \<Rightarrow> None
      | Some (JObj kvs) \<Rightarrow> None
      | Some x \<Rightarrow> map_option Some (lax_str L x))"

definition validate_int :: "lib \<Rightarrow> json option \<Rightarrow> int option option" where
  "validate_int L v =
     (case v of
        None \<Rightarrow> Some None
      | Some JNull \<Rightarrow> Some None
      | Some (JInt i) \<Rightarrow> Some (Some i)
      | Some (JList items) \<Rightarrow> None
      | Some (JObj kvs) \<Rightarrow> None
      | Some x \<Rightarrow> map_option Some (lax_int L x))"

definition PaymentTerms_init :: "lib \<Rightarrow> dict \<Rightarrow> PaymentTerms option" where
  "PaymentTerms_init L kwargs =
     do {
       a \<leftarrow> validate_str L (map_of kwargs ''description'');
       b \<leftarrow> validate_str L (map_of kwargs ''due_date'');
       Some \<lparr>description = a, due_date = b\<rparr>
     }"

definition validate_payment_terms :: "lib \<Rightarrow> json option \<Rightarrow> PaymentTerms option option" where
  "validate_payment_terms L v =
     (case v of
        None \<Rightarrow> Some None
      | Some JNull \<Rightarrow> Some None
      | Some (JObj kvs) \<Rightarrow> map_option Some (PaymentTerms_init L kvs)
      | Some (JBool b) \<Rightarrow> None
      | Some (JInt i) \<Rightarrow> None
      | Some (JFloat r) \<Rightarrow> None
      | Some x \<Rightarrow>
          (case lax_model L x of
             None \<Rightarrow> None
           | Some kvs \<Rightarrow> map_option Some (PaymentTerms_init L kvs)))"

text \<open>The validation of all fields: the record when every field is accepted.\<close>

definition validate_fields :: "lib \<Rightarrow> dict \<Rightarrow> ContractSchema option" where
  "validate_fields L kwargs =
     do {
       a1 \<leftarrow> validate_str L (map_of kwargs ''doc_id'');
       a2 \<leftarrow> validate_str L (map_of kwargs ''parties'');
       a3 \<leftarrow> validate_str L (map_of kwargs ''effective_date'');
       a4 \<leftarrow> validate_str L (map_of kwargs ''termination_clause'');
       a5 \<leftarrow> validate_str L (map_of kwargs ''confidentiality_clause'');
       a6 \<leftarrow> validate_str L (map_of kwargs ''governing_law'');
       a7 \<leftarrow> validate_payment_terms L (map_of kwargs ''payment_terms'');
       a8 \<leftarrow> validate_int L (map_of kwargs ''risk_score'');
       a9 \<leftarrow> validate_str L (map_of kwargs ''notes'');
       Some \<lparr>doc_id = a1, parties = a2, effective_date = a3, termination_clause = a4,
             confidentiality_clause = a5, governing_law = a6, payment_terms = a7,
             risk_score = a8, notes = a9\<rparr>
     }"

text \<open>The names of the fields that are refused, in the order of their declaration.\<close>

definition refused_fields :: "lib \<Rightarrow> dict \<Rightarrow> string list" where
  "refused_fields L kwargs =
     map fst (filter snd
       [(''doc_id'', validate_str L (map_of kwargs ''doc_id'') = None),
        (''parties'', validate_str L (map_of kwargs ''parties'') = None),
        (''effective_date'', validate_str L (map_of kwargs ''effective_date'') = None),
        (''termination_clause'', validate_str L (map_of kwargs ''termination_clause'') = None),
        (''confidentiality_clause'',
           validate_str L (map_of kwargs ''confidentiality_clause'') = None),
        (''governing_law'', validate_str L (map_of kwargs ''governing_law'') = None),
        (''payment_terms'', validate_payment_terms L (map_of kwargs ''payment_terms'') = None),
        (''risk_score'', validate_int L (map_of kwargs ''risk_score'') = None),
        (''notes'', validate_str L (map_of kwargs ''notes'') = None)])"

definition ContractSchema_init :: "lib \<Rightarrow> dict \<Rightarrow> exn + ContractSchema" where
  "ContractSchema_init L kwargs =
     (case validate_fields L kwargs of
        Some contract_data \<Rightarrow> Inr contract_data
      | None \<Rightarrow> Inl (ValidationError (error_text L (refused_fields L kwargs))))"

section \<open>Response coercion (app/contract_analyzer.py, the \<open>try\<close> block of \<open>analyze\<close>)\<close>

definition string_fields :: "string list" where
  "string_fields =
     [''parties'', ''effective_date'', ''termination_clause'', ''confidentiality_clause'',
      ''governing_law'', ''notes'']"

text \<open>One round of the loop over \<open>string_fields\<close>.\<close>

definition repair_string_field :: "dict \<Rightarrow> string \<Rightarrow> dict" where
  "repair_string_field data field =
     (let val = dict_get data field
      in if truthy val then
           (case val of
              JList items \<Rightarrow> dict_set data field (JStr (py_join '', '' (map py_str items)))
            | JObj kvs \<Rightarrow>
                dict_set data field
                  (JStr (py_join '', '' (map (\<lambda>(k, v). k @ '': '' @ py_str v) kvs)))
            | _ \<Rightarrow> data)
         else data)"

definition repair_payment_terms :: "dict \<Rightarrow> dict" where
  "repair_payment_terms data =
     (let pt = dict_get data ''payment_terms''
      in if truthy pt then
           (case pt of
              JStr s \<Rightarrow> dict_set data ''payment_terms'' (JObj [(''description'', JStr s)])
            | JList items \<Rightarrow>
                (let description = py_join '', '' (map py_str items)
                 in dict_set data ''payment_terms'' (JObj [(''description'', JStr description)]))
            | _ \<Rightarrow> data)
         else data)"

text \<open>The body of the \<open>try\<close> block, from the outcome \<open>loaded\<close> of \<open>json.loads(response)\<close>
  on: a value that is not a dict has no method \<open>get\<close>.\<close>

definition try_body :: "lib \<Rightarrow> exn + json \<Rightarrow> exn + ContractSchema" where
  "try_body L loaded =
     (case loaded of
        Inl e \<Rightarrow> Inl e
      | Inr data \<Rightarrow>
          (case data of
             JObj d \<Rightarrow>
               ContractSchema_init L (repair_payment_terms (foldl repair_string_field d string_fields))
           | _ \<Rightarrow>
               Inl (AttributeError
                 ([CHR 0x27] @ type_name data @ [CHR 0x27] @ '' object has no attribute ''
                  @ [CHR 0x27] @ ''get'' @ [CHR 0x27]))))"

text \<open>The \<open>try\<close> block with its two handlers. \<open>response\<close> is the cleaned model output that
  was given to \<open>json.loads\<close>, and \<open>loaded\<close> the outcome of that call.\<close>

definition coerce_response :: "lib \<Rightarrow> exn + json \<Rightarrow> string \<Rightarrow> string \<Rightarrow> exn + ContractSchema" where
  "coerce_response L loaded response file_name =
     (case try_body L loaded of
        Inr contract_data \<Rightarrow> Inr contract_data
      | Inl (JSONDecodeError m) \<Rightarrow>
          ContractSchema_init L
            [(''doc_id'', JStr file_name),
             (''notes'', JStr (''Failed to parse analysis result. Raw output: '' @ take 100 response))]
      | Inl e \<Rightarrow>
          ContractSchema_init L
            [(''doc_id'', JStr file_name),
             (''notes'', JStr (''Validation error: '' @ str_exn e))])"

section \<open>Smart context and contract analysis (app/contract_analyzer.py)\<close>

text \<open>The metadata dict the vector store keeps with a chunk; a key may be absent. The key
  \<open>type\<close> of the source is the field \<open>doc_type\<close>.\<close>

record metadata =
  source :: "string option"
  doc_type :: "string option"
  chunk_index :: "int option"
  clause_types :: "string option"

text \<open>\<open>relevant_sections\<close>: a dict from the eight bucket names to lists of chunk texts,
  every list empty at the start.\<close>

type_synonym sections = "string \<Rightarrow> string list"

definition empty_sections :: sections where
  "empty_sections = (\<lambda>key. [])"

definition append_to :: "sections \<Rightarrow> string \<Rightarrow> string \<Rightarrow> sections" where
  "append_to relevant_sections key doc = relevant_sections(key := relevant_sections key @ [doc])"

text \<open>One round of the loop over \<open>zip(documents, metadatas)\<close>. The tags are one
  comma-separated string, and \<open>"parties" in tags\<close> is a test for a substring.\<close>

definition distribute :: "sections \<Rightarrow> string \<times> metadata \<Rightarrow> sections" where
  "distribute relevant_sections dm =
     (let doc = fst dm; meta = snd dm;
          tags = (case clause_types meta of None \<Rightarrow> ''general'' | Some t \<Rightarrow> t);
          rs = relevant_sections;
          rs = (if sublist ''parties'' tags then append_to rs ''parties'' doc else rs);
          rs = (if sublist ''effective_date'' tags \<or> sublist ''renewal'' tags
                then append_to rs ''effective_date'' doc else rs);
          rs = (if sublist ''termination'' tags then append_to rs ''termination'' doc else rs);
          rs = (if sublist ''governing_law'' tags then append_to rs ''governing_law'' doc else rs);
          rs = (if sublist ''confidentiality'' tags then append_to rs ''confidentiality'' doc
                else rs);
          rs = (if sublist ''payment_terms'' tags then append_to rs ''payment_terms'' doc else rs);
          rs = (if sublist ''liability'' tags \<or> sublist ''restrictive_covenants'' tags
                   \<or> sublist ''license_ip'' tags
                then append_to rs ''liability'' doc else rs);
          rs = (if (case chunk_index meta of None \<Rightarrow> 999 | Some i \<Rightarrow> i) < 3
                then append_to rs ''general'' doc else rs)
      in rs)"

definition build_sections :: "string list \<Rightarrow> metadata list \<Rightarrow> sections" where
  "build_sections docs metas = foldl distribute empty_sections (zip docs metas)"

definition get_top_chunks :: "string list \<Rightarrow> nat \<Rightarrow> string" where
  "get_top_chunks chunks limit = py_join ''\<newline>...\<newline>'' (take limit chunks)"

definition context_parts :: "sections \<Rightarrow> string list" where
  "context_parts relevant_sections =
     [''--- INTRO ---\<newline>'' @ get_top_chunks (relevant_sections ''general'') 3,
      ''--- PARTIES ---\<newline>'' @ get_top_chunks (relevant_sections ''parties'') 2,
      ''--- DATES ---\<newline>'' @ get_top_chunks (relevant_sections ''effective_date'') 2,
      ''--- TERMINATION ---\<newline>'' @ get_top_chunks (relevant_sections ''termination'') 2,
      ''--- LAW ---\<newline>'' @ get_top_chunks (relevant_sections ''governing_law'') 2,
      ''--- PAYMENT ---\<newline>'' @ get_top_chunks (relevant_sections ''payment_terms'') 2,
      ''--- RISK FACTORS (Liability/IP/Restrictions) ---\<newline>''
        @ get_top_chunks (relevant_sections ''liability'') 3]"

definition full_context :: "string list \<Rightarrow> metadata list \<Rightarrow> string" where
  "full_context docs metas = py_join ''\<newline>\<newline>'' (context_parts (build_sections docs metas))"

definition context_text :: "string list \<Rightarrow> metadata list \<Rightarrow> string" where
  "context_text docs metas = take 6000 (full_context docs metas)"

definition extraction_prompt :: "string \<Rightarrow> string \<Rightarrow> string" where
  "extraction_prompt file_name ctx =
     ''<|system|>\<newline>''
     @ ''You are a legal expert. Analyze the following contract text segments and extract the required fields in STRICT JSON format.\<newline>''
     @ ''Do not include any markdown formatting or explanation. Just the JSON.\<newline>''
     @ ''Fields required:\<newline>''
     @ ''- doc_id: '' @ [CHR 0x22] @ file_name @ [CHR 0x22] @ ''\<newline>''
     @ ''- parties: Who are the parties?\<newline>''
     @ ''- effective_date: When does it start?\<newline>''
     @ ''- termination_clause: Summary of termination rights.\<newline>''
     @ ''- confidentiality_clause: Summary of confidentiality obligations.\<newline>''
     @ ''- governing_law: Which jurisdiction?\<newline>''
     @ ''- payment_terms: { '' @ [CHR 0x22] @ ''description'' @ [CHR 0x22] @ '': ''
         @ [CHR 0x22] @ ''...'' @ [CHR 0x22] @ '', '' @ [CHR 0x22] @ ''due_date'' @ [CHR 0x22]
         @ '': '' @ [CHR 0x22] @ ''...'' @ [CHR 0x22] @ '' }\<newline>''
     @ ''- risk_score: Integer 0-100 based on risk (high liability, strict termination = high risk).\<newline>''
     @ ''- notes: Any other key observations.\<newline>''
     @ ''\<newline>''
     @ ''If a field is not found, use null.\<newline>''
     @ ''<|end|>\<newline>''
     @ ''<|user|>\<newline>''
     @ ''Contract Segments:\<newline>''
     @ ctx @ ''\<newline>''
     @ ''<|end|>\<newline>''
     @ ''<|assistant|>''"

text \<open>The text after the last \<open><|assistant|>\<close>, stripped.\<close>

definition assistant_part :: "string \<Rightarrow> string" where
  "assistant_part generated_text = py_strip (last (py_split generated_text ''<|assistant|>''))"

text \<open>The markdown fences are removed: three backquotes followed by \<open>json\<close>, then three
  backquotes alone.\<close>

definition clean_response :: "string \<Rightarrow> string" where
  "clean_response generated_text =
     py_strip
       (py_replace
          (py_replace (assistant_part generated_text) ([CHR 0x60, CHR 0x60, CHR 0x60] @ ''json'') [])
          [CHR 0x60, CHR 0x60, CHR 0x60] [])"

text \<open>The coercion step of \<open>analyze\<close>: from the text the pipeline generated to the record
  returned, through cleaning, parsing, repair and validation.\<close>

definition coerce :: "lib \<Rightarrow> (string \<Rightarrow> exn + json) \<Rightarrow> string \<Rightarrow> string \<Rightarrow> exn + ContractSchema" where
  "coerce L json_loads generated_text file_name =
     (let response = clean_response generated_text
      in coerce_response L (json_loads response) response file_name)"

text \<open>
  \<open>ContractAnalyzer.analyze\<close>. Its collaborators are parameters: \<open>json_loads\<close> is the JSON
  parser with the exception it may raise; \<open>pipe\<close> is the loaded text generation pipeline,
  \<open>None\<close> when loading failed, taken from the prompt to the generated text;
  \<open>docs\<close> and \<open>metas\<close> are the documents and metadatas the store returns for \<open>file_name\<close>.
\<close>

definition analyze ::
  "lib \<Rightarrow> (string \<Rightarrow> exn + json) \<Rightarrow> (string \<Rightarrow> string) option \<Rightarrow> string list \<Rightarrow> metadata list
     \<Rightarrow> string \<Rightarrow> exn + ContractSchema" where
  "analyze L json_loads pipe docs metas file_name =
     (if docs = []
      then ContractSchema_init L
             [(''doc_id'', JStr file_name), (''notes'', JStr ''No content found.'')]
      else
        (let prompt = extraction_prompt file_name (context_text docs metas)
         in case pipe of
              Some p \<Rightarrow> coerce L json_loads (p prompt) file_name
            | None \<Rightarrow>
                ContractSchema_init L
                  [(''doc_id'', JStr file_name), (''notes'', JStr ''LLM not loaded.'')]))"

section \<open>Question answering (app/rag_service.py)\<close>

definition DISTANCE_THRESHOLD :: real where
  "DISTANCE_THRESHOLD = 1.0"

text \<open>One retrieved passage: the dict with the keys \<open>text\<close>, \<open>metadata\<close> and \<open>score\<close>.
  A distance is a finite float, read as the real number it denotes; comparing two of them
  is exact.\<close>

record retrieved =
  doc_text :: string
  doc_metadata :: metadata
  score :: real

text \<open>What \<open>collection.query\<close> returns: one inner list per query embedding.\<close>

record query_results =
  documents :: "string list list"
  metadatas :: "metadata list list"
  distances :: "real list list"

definition py_index :: "'a list \<Rightarrow> nat \<Rightarrow> exn + 'a" where
  "py_index xs i =
     (if i < length xs then Inr (xs ! i) else Inl (IndexError ''list index out of range''))"

text \<open>The loop of \<open>retrieve\<close> over \<open>enumerate(results['documents'][0])\<close>, from index \<open>i\<close> on.\<close>

fun retrieve_loop ::
  "metadata list list \<Rightarrow> real list list \<Rightarrow> nat \<Rightarrow> string list \<Rightarrow> retrieved list
     \<Rightarrow> exn + retrieved list" where
  "retrieve_loop ms ds i [] retrieved_docs = Inr retrieved_docs"
| "retrieve_loop ms ds i (doc # rest) retrieved_docs =
     (case py_index ms 0 of
        Inl e \<Rightarrow> Inl e
      | Inr ms0 \<Rightarrow>
          (case py_index ms0 i of
             Inl e \<Rightarrow> Inl e
           | Inr m \<Rightarrow>
               (case py_index ds 0 of
                  Inl e \<Rightarrow> Inl e
                | Inr ds0 \<Rightarrow>
                    (case py_index ds0 i of
                       Inl e \<Rightarrow> Inl e
                     | Inr distance \<Rightarrow>
                         retrieve_loop ms ds (Suc i) rest
                           (retrieved_docs
                            @ [\<lparr>doc_text = doc, doc_metadata = m, score = distance\<rparr>])))))"

definition retrieve :: "query_results \<Rightarrow> exn + retrieved list" where
  "retrieve results =
     (case documents results of
        [] \<Rightarrow> Inr []
      | docs0 # others \<Rightarrow> retrieve_loop (metadatas results) (distances results) 0 docs0 [])"

record answer_result =
  answer :: string
  citations :: "string list"
  similarity_scores :: "real list"

text \<open>\<open>d['metadata']['source']\<close> raises \<open>KeyError\<close> when the key is absent.\<close>

definition source_of :: "retrieved \<Rightarrow> exn + string" where
  "source_of d =
     (case source (doc_metadata d) of
        None \<Rightarrow> Inl (KeyError ([CHR 0x27] @ ''source'' @ [CHR 0x27]))
      | Some s \<Rightarrow> Inr s)"

fun sources_of :: "retrieved list \<Rightarrow> exn + string list" where
  "sources_of [] = Inr []"
| "sources_of (d # ds) =
     (case source_of d of
        Inl e \<Rightarrow> Inl e
      | Inr s \<Rightarrow> (case sources_of ds of Inl e \<Rightarrow> Inl e | Inr ss \<Rightarrow> Inr (s # ss)))"

definition qa_prompt :: "string \<Rightarrow> string \<Rightarrow> string" where
  "qa_prompt ctx question =
     ''<|system|>\<newline>''
     @ ''You are a helpful compliance assistant. Answer the question based ONLY on the provided context. \<newline>''
     @ ''If the answer is not in the context, say '' @ [CHR 0x22] @ ''No relevant info found.''
         @ [CHR 0x22] @ ''\<newline>''
     @ ''Include citations to the source documents.\<newline>''
     @ ''<|end|>\<newline>''
     @ ''<|user|>\<newline>''
     @ ''Context:\<newline>''
     @ ctx @ ''\<newline>''
     @ ''\<newline>''
     @ ''Question: '' @ question @ ''\<newline>''
     @ ''<|end|>\<newline>''
     @ ''<|assistant|>''"

text \<open>The threshold filter of \<open>answer_question\<close>.\<close>

definition relevant_docs :: "retrieved list \<Rightarrow> retrieved list" where
  "relevant_docs docs = filter (\<lambda>d. score d < DISTANCE_THRESHOLD) docs"

text \<open>
  \<open>RAGService.answer_question\<close>, from the result of the store's query on. It returns the
  answer dict together with the prompts given to the generation pipeline, in the order of
  the calls. \<open>set_order\<close> is the order in which Python lists the members of the set of
  the sources, which the language leaves open; it is given the sources without repetition.
\<close>

definition answer_question ::
  "(string \<Rightarrow> string) option \<Rightarrow> (string list \<Rightarrow> string list) \<Rightarrow> query_results \<Rightarrow> string
     \<Rightarrow> exn + answer_result \<times> string list" where
  "answer_question pipe set_order results question =
     (case retrieve results of
        Inl e \<Rightarrow> Inl e
      | Inr docs \<Rightarrow>
          (let relevant = relevant_docs docs
           in if relevant = []
              then Inr (\<lparr>answer = ''No relevant info found.'', citations = [],
                          similarity_scores = []\<rparr>, [])
              else
                (case sources_of relevant of
                   Inl e \<Rightarrow> Inl e
                 | Inr srcs \<Rightarrow>
                     (let ctx = py_join ''\<newline>\<newline>''
                            (map (\<lambda>(s, d). ''Source: '' @ s @ ''\<newline>Content: '' @ doc_text d)
                               (zip srcs relevant));
                          prompt = qa_prompt ctx question;
                          answer_calls =
                            (case pipe of
                               Some p \<Rightarrow> (assistant_part (p prompt), [prompt])
                             | None \<Rightarrow> (''LLM not loaded. Cannot generate answer.'', []))
                      in Inr (\<lparr>answer = fst answer_calls, citations = set_order (remdups srcs),
                                 similarity_scores = map score relevant\<rparr>,
                              snd answer_calls)))))"

section \<open>Ingestion (app/ingest.py)\<close>

text \<open>
  \<open>ingest_documents\<close> calls four collaborators: PDF text extraction, the text splitter,
  PII masking and the embedding model; they are parameters. The vector type \<open>'v\<close> of the
  embeddings is left open. The model returns the trace of the run: one event per call, in
  the order in which the source makes the calls, each with the arguments of the call.
  \<open>Tag\<close> is a call of \<open>detect_clause_types\<close>; \<open>Upsert\<close> is the call of the store with
  the documents, embeddings, metadatas and ids.
\<close>

record 'v collaborators =
  extract_text_from_pdf :: "string \<Rightarrow> string"
  split_text :: "string \<Rightarrow> string list"
  mask_pii :: "string \<Rightarrow> string"
  embed_texts :: "string list \<Rightarrow> 'v list"

datatype 'v event =
    Extract string
  | Chunk string
  | Mask string
  | Embed "string list"
  | Tag string
  | Upsert "string list" "'v list" "metadata list" "string list"

text \<open>\<open>os.path.basename\<close>: what follows the last slash.\<close>

definition basename :: "string \<Rightarrow> string" where
  "basename path = rev (takeWhile (\<lambda>c. c \<noteq> CHR ''/'') (rev path))"

text \<open>The body of the loop over \<open>all_files\<close> for one file; \<open>trace\<close> holds the calls made
  so far. A file without text, or without chunks, is skipped (\<open>continue\<close>).\<close>

definition ingest_file :: "'v collaborators \<Rightarrow> 'v event list \<Rightarrow> string \<Rightarrow> 'v event list" where
  "ingest_file E trace file_path =
     (let file_name = basename file_path;
          doc_type = (if sublist ''policies'' file_path then ''policy'' else ''contract'');
          raw_text = extract_text_from_pdf E file_path;
          trace = trace @ [Extract file_path]
      in if raw_text = [] then trace
         else
           (let raw_chunks = split_text E raw_text;
                trace = trace @ [Chunk raw_text]
            in if raw_chunks = [] then trace
               else
                 (let chunks = map (mask_pii E) raw_chunks;
                      trace = trace @ map Mask raw_chunks;
                      embeddings = embed_texts E chunks;
                      trace = trace @ [Embed chunks];
                      ids = map (\<lambda>i. file_name @ ''_'' @ str_nat i) [0..<length chunks];
                      metas = map (\<lambda>(i, chunk).
                                 \<lparr>source = Some file_name, doc_type = Some doc_type,
                                  chunk_index = Some (int i),
                                  clause_types = Some (detect_clause_types chunk)\<rparr>)
                               (enumerate 0 chunks);
                      trace = trace @ map Tag chunks
                  in trace @ [Upsert chunks embeddings metas ids])))"

definition ingest_documents :: "'v collaborators \<Rightarrow> string list \<Rightarrow> 'v event list" where
  "ingest_documents E all_files = foldl (ingest_file E) [] all_files"

text \<open>Kinds of events, and the order of two kinds in a trace: no event of the second kind
  stands before an event of the first.\<close>

fun is_Mask :: "'v event \<Rightarrow> bool" where
  "is_Mask (Mask c) = True"
| "is_Mask e = False"

fun is_Embed :: "'v event \<Rightarrow> bool" where
  "is_Embed (Embed cs) = True"
| "is_Embed e = False"

fun is_Tag :: "'v event \<Rightarrow> bool" where
  "is_Tag (Tag c) = True"
| "is_Tag e = False"

fun is_Upsert :: "'v event \<Rightarrow> bool" where
  "is_Upsert (Upsert a b c d) = True"
| "is_Upsert e = False"

fun all_before :: "('a \<Rightarrow> bool) \<Rightarrow> ('a \<Rightarrow> bool) \<Rightarrow> 'a list \<Rightarrow> bool" where
  "all_before P Q [] = True"
| "all_before P Q (x # xs) = ((if Q x then \<not> list_ex P xs else True) \<and> all_before P Q xs)"

text \<open>An instance of the library parameters for concrete evaluations: no conversion
  applies and the error text lists the refused fields. None of the inputs evaluated below
  holds a value whose validation depends on the instance.\<close>

definition no_conversion :: lib where
  "no_conversion =
     \<lparr>lax_str = (\<lambda>v. None), lax_int = (\<lambda>v. None), lax_model = (\<lambda>v. None),
      error_text = py_join '', ''\<rparr>"

section \<open>Notions used in the statements\<close>

text \<open>The record of a degraded path: the document id, an explanatory note, every other
  field null.\<close>

definition degraded :: "string \<Rightarrow> string \<Rightarrow> ContractSchema" where
  "degraded file_name note =
     \<lparr>doc_id = Some file_name, parties = None, effective_date = None, termination_clause = None,
      confidentiality_clause = None, governing_law = None, payment_terms = None,
      risk_score = None, notes = Some note\<rparr>"

text \<open>The field of a record that is named by one of \<open>string_fields\<close>.\<close>

definition getattr_str :: "ContractSchema \<Rightarrow> string \<Rightarrow> string option" where
  "getattr_str r field =
     (if field = ''parties'' then parties r
      else if field = ''effective_date'' then effective_date r
      else if field = ''termination_clause'' then termination_clause r
      else if field = ''confidentiality_clause'' then confidentiality_clause r
      else if field = ''governing_law'' then governing_law r
      else if field = ''notes'' then notes r
      else None)"

text \<open>Membership of a chunk in a bucket, read off its metadata, and the members of a
  bucket among the stored chunks, in store order.\<close>

definition tags_of :: "metadata \<Rightarrow> string" where
  "tags_of meta = (case clause_types meta of None \<Rightarrow> ''general'' | Some t \<Rightarrow> t)"

definition in_bucket :: "string \<Rightarrow> metadata \<Rightarrow> bool" where
  "in_bucket key meta =
     (if key = ''parties'' then sublist ''parties'' (tags_of meta)
      else if key = ''effective_date''
        then sublist ''effective_date'' (tags_of meta) \<or> sublist ''renewal'' (tags_of meta)
      else if key = ''termination'' then sublist ''termination'' (tags_of meta)
      else if key = ''governing_law'' then sublist ''governing_law'' (tags_of meta)
      else if key = ''confidentiality'' then sublist ''confidentiality'' (tags_of meta)
      else if key = ''payment_terms'' then sublist ''payment_terms'' (tags_of meta)
      else if key = ''liability''
        then sublist ''liability'' (tags_of meta) \<or> sublist ''restrictive_covenants'' (tags_of meta)
             \<or> sublist ''license_ip'' (tags_of meta)
      else if key = ''general''
        then (case chunk_index meta of None \<Rightarrow> 999 | Some i \<Rightarrow> i) < 3
      else False)"

definition members :: "string \<Rightarrow> string list \<Rightarrow> metadata list \<Rightarrow> string list" where
  "members key docs metas = map fst (filter (\<lambda>dm. in_bucket key (snd dm)) (zip docs metas))"

text \<open>The sections of the context in their order: label, bucket and number of chunks
  taken.\<close>

definition section_order :: "(string \<times> string \<times> nat) list" where
  "section_order =
     [(''INTRO'', ''general'', 3), (''PARTIES'', ''parties'', 2), (''DATES'', ''effective_date'', 2),
      (''TERMINATION'', ''termination'', 2), (''LAW'', ''governing_law'', 2),
      (''PAYMENT'', ''payment_terms'', 2),
      (''RISK FACTORS (Liability/IP/Restrictions)'', ''liability'', 3)]"

definition render_section :: "sections \<Rightarrow> string \<times> string \<times> nat \<Rightarrow> string" where
  "render_section relevant_sections lkn =
     (case lkn of (label, key, n) \<Rightarrow>
        ''--- '' @ label @ '' ---\<newline>''
        @ py_join ''\<newline>...\<newline>'' (take n (relevant_sections key)))"

text \<open>Inputs of the concrete evaluations.\<close>

definition meta_of :: "int \<Rightarrow> string \<Rightarrow> metadata" where
  "meta_of i tags =
     \<lparr>source = Some ''nda.pdf'', doc_type = Some ''contract'', chunk_index = Some i,
      clause_types = Some tags\<rparr>"

definition demo_collaborators :: "nat collaborators" where
  "demo_collaborators =
     \<lparr>extract_text_from_pdf = (\<lambda>path. ''This Agreement may be terminated upon 30 days notice''),
      split_text = (\<lambda>t. [t]),
      mask_pii = (\<lambda>c. c),
      embed_texts = map length\<rparr>"

text \<open>The keyword arguments that \<open>analyze\<close> hands to \<open>ContractSchema\<close>: the parsed object
  after both repairs.\<close>

definition repaired_kwargs :: "dict \<Rightarrow> dict" where
  "repaired_kwargs d = repair_payment_terms (foldl repair_string_field d string_fields)"

text \<open>The context that \<open>answer_question\<close> builds from the sources and the passages it
  keeps.\<close>

definition qa_context :: "string list \<Rightarrow> retrieved list \<Rightarrow> string" where
  "qa_context srcs kept =
     py_join ''\<newline>\<newline>''
       (map (\<lambda>(s, d). ''Source: '' @ s @ ''\<newline>Content: '' @ doc_text d) (zip srcs kept))"

definition demo_results :: query_results where
  "demo_results =
     \<lparr>documents = [[''Report incidents.'', ''Keep records.'', ''Lunch is at noon.'']],
      metadatas = [[meta_of 0 ''general'', meta_of 1 ''general'', meta_of 2 ''general'']],
      distances = [[0.2, 0.9, 1.3]]\<rparr>"


section \<open>Facts about the string functions\<close>

text \<open>\<open>s.split(sep)\<close> has at least one piece, so its last piece exists.\<close>

lemma split_from_not_empty: "split_from sep cur s \<noteq> []"
  by (induction sep cur s rule: split_from.induct) auto

lemma py_split_not_empty: "py_split s sep \<noteq> []"
  by (simp add: py_split_def split_from_not_empty)

section \<open>Context budget\<close>

text \<open>The context of a document that is one chunk of 7000 characters at index 0.\<close>

lemma long_chunk_context:
  "full_context [replicate 7000 CHR ''x''] [meta_of 0 ''general'']
     = ''--- INTRO ---\<newline>'' @ replicate 7000 CHR ''x''
       @ ''\<newline>\<newline>--- PARTIES ---\<newline>\<newline>\<newline>--- DATES ---\<newline>\<newline>\<newline>--- TERMINATION ---\<newline>\<newline>\<newline>--- LAW ---\<newline>\<newline>\<newline>--- PAYMENT ---\<newline>\<newline>\<newline>--- RISK FACTORS (Liability/IP/Restrictions) ---\<newline>''"
proof -
  have t: "tags_of (meta_of 0 ''general'') = ''general''" "chunk_index (meta_of 0 ''general'') = Some 0"
    by (simp_all add: tags_of_def meta_of_def)
  have b: "build_sections [d] [meta_of 0 ''general''] = empty_sections(''general'' := [d])" for d
    unfolding build_sections_def distribute_def Let_def
    by (simp add: meta_of_def append_to_def empty_sections_def sublist_code)
  show ?thesis
    unfolding full_context_def b context_parts_def get_top_chunks_def
    by (simp add: empty_sections_def)
qed

text \<open>
  C3. For every list of chunks, whatever its size, the context text handed to the
  extraction prompt has at most 6000 characters. It is the first 6000 characters of the
  assembled context, or all of it when that is shorter: the cut is made at the budget,
  wherever in a section that falls.
\<close>

theorem context_text_budget:
  "length (context_text docs metas) \<le> 6000
   \<and> length (context_text docs metas) = min (length (full_context docs metas)) 6000
   \<and> context_text docs metas = take 6000 (full_context docs metas)
   \<and> prefix (context_text docs metas) (full_context docs metas)"
  by (simp add: context_text_def take_is_prefix)

theorem context_text_budget_witness:
  "context_text [replicate 7000 CHR ''x''] [meta_of 0 ''general'']
     = ''--- INTRO ---\<newline>'' @ replicate 5986 CHR ''x''
   \<and> length (context_text [replicate 7000 CHR ''x''] [meta_of 0 ''general'']) = 6000
   \<and> length (full_context [replicate 7000 CHR ''x''] [meta_of 0 ''general'']) = 7153"
proof -
  let ?docs = "[replicate 7000 CHR ''x'']"
  let ?metas = "[meta_of 0 ''general'']"
  have l: "length (full_context ?docs ?metas) = 7153"
    unfolding long_chunk_context by simp
  have c: "context_text ?docs ?metas = ''--- INTRO ---\<newline>'' @ replicate 5986 CHR ''x''"
    using context_text_budget[of ?docs ?metas] unfolding long_chunk_context by simp
  from c l context_text_budget[of ?docs ?metas] show ?thesis
    by simp
qed

section \<open>Question answering\<close>

text \<open>
  C4. When the threshold filter leaves no passage, \<open>answer_question\<close> returns exactly the
  answer "No relevant info found." with no citations and no similarity scores, and no
  prompt is given to the generation pipeline.
\<close>

theorem answer_question_short_circuit:
  assumes "retrieve results = Inr docs" and "relevant_docs docs = []"
  shows "answer_question pipe set_order results question =
           Inr (\<lparr>answer = ''No relevant info found.'', citations = [], similarity_scores = []\<rparr>, [])"
  using assms by (simp add: answer_question_def)

theorem answer_question_short_circuit_witness:
  "retrieve \<lparr>documents = [[''a'', ''b'']],
             metadatas = [[meta_of 0 ''general'', meta_of 1 ''general'']],
             distances = [[1.0, 1.7]]\<rparr>
     = Inr [\<lparr>doc_text = ''a'', doc_metadata = meta_of 0 ''general'', score = 1.0\<rparr>,
            \<lparr>doc_text = ''b'', doc_metadata = meta_of 1 ''general'', score = 1.7\<rparr>]
   \<and> relevant_docs [\<lparr>doc_text = ''a'', doc_metadata = meta_of 0 ''general'', score = 1.0\<rparr>,
                     \<lparr>doc_text = ''b'', doc_metadata = meta_of 1 ''general'', score = 1.7\<rparr>] = []
   \<and> answer_question (Some (\<lambda>prompt. prompt @ ''Yes.'')) (\<lambda>xs. xs)
        \<lparr>documents = [[''a'', ''b'']],
         metadatas = [[meta_of 0 ''general'', meta_of 1 ''general'']],
         distances = [[1.0, 1.7]]\<rparr> ''May I?''
     = Inr (\<lparr>answer = ''No relevant info found.'', citations = [], similarity_scores = []\<rparr>, [])"
proof -
  have r: "retrieve \<lparr>documents = [[''a'', ''b'']],
             metadatas = [[meta_of 0 ''general'', meta_of 1 ''general'']],
             distances = [[1.0, 1.7]]\<rparr>
     = Inr [\<lparr>doc_text = ''a'', doc_metadata = meta_of 0 ''general'', score = 1.0\<rparr>,
            \<lparr>doc_text = ''b'', doc_metadata = meta_of 1 ''general'', score = 1.7\<rparr>]"
    by (simp add: retrieve_def py_index_def)
  have f: "relevant_docs [\<lparr>doc_text = ''a'', doc_metadata = meta_of 0 ''general'', score = 1.0\<rparr>,
                     \<lparr>doc_text = ''b'', doc_metadata = meta_of 1 ''general'', score = 1.7\<rparr>] = []"
    by (simp add: relevant_docs_def DISTANCE_THRESHOLD_def)
  show ?thesis
    using r f answer_question_short_circuit[OF r f] by simp
qed

lemma retrieve_loop_scores:
  "retrieve_loop ms ds i docs0 acc = Inr out \<Longrightarrow> py_index ds 0 = Inr ds0 \<Longrightarrow>
   map score out = map score acc @ take (length docs0) (drop i ds0)"
proof (induction ms ds i docs0 acc arbitrary: out rule: retrieve_loop.induct)
  case (1 ms ds i retrieved_docs)
  then show ?case by simp
next
  case (2 ms ds i doc rest retrieved_docs)
  from "2.prems" obtain ms0 m distance where
    a: "py_index ms 0 = Inr ms0" "py_index ms0 i = Inr m" "py_index ds0 i = Inr distance"
    and r: "retrieve_loop ms ds (Suc i) rest
              (retrieved_docs @ [\<lparr>doc_text = doc, doc_metadata = m, score = distance\<rparr>]) = Inr out"
    by (auto split: sum.splits)
  from a(3) have i: "i < length ds0" "ds0 ! i = distance"
    by (auto simp: py_index_def split: if_splits)
  have "map score out
        = map score (retrieved_docs @ [\<lparr>doc_text = doc, doc_metadata = m, score = distance\<rparr>])
          @ take (length rest) (drop (Suc i) ds0)"
    using "2.IH"[OF a(1) a(2) "2.prems"(2) a(3) r "2.prems"(2)] .
  moreover have "take (length (doc # rest)) (drop i ds0) = distance # take (length rest) (drop (Suc i) ds0)"
    using i by (simp add: Cons_nth_drop_Suc[symmetric])
  ultimately show ?case by simp
qed

lemma retrieve_scores:
  assumes "retrieve results = Inr docs" and "documents results = docs0 # others"
    and "distances results = ds0 # others'" and "length docs0 = length ds0"
  shows "map score docs = ds0"
proof (cases docs0)
  case Nil
  with assms show ?thesis by (simp add: retrieve_def)
next
  case (Cons x xs)
  from assms(1,2) have l: "retrieve_loop (metadatas results) (distances results) 0 docs0 [] = Inr docs"
    by (simp add: retrieve_def)
  have i: "py_index (distances results) 0 = Inr ds0"
    by (simp add: assms(3) py_index_def)
  from retrieve_loop_scores[OF l i] assms(4) show ?thesis
    by simp
qed

lemma answer_question_kept:
  assumes "retrieve results = Inr docs"
    and "filter (\<lambda>d. score d < 1.0) docs \<noteq> []"
    and "sources_of (filter (\<lambda>d. score d < 1.0) docs) = Inr srcs"
  shows "answer_question pipe set_order results question =
           Inr (\<lparr>answer =
                   (case pipe of
                      Some p \<Rightarrow>
                        assistant_part
                          (p (qa_prompt (qa_context srcs (filter (\<lambda>d. score d < 1.0) docs)) question))
                    | None \<Rightarrow> ''LLM not loaded. Cannot generate answer.''),
                 citations = set_order (remdups srcs),
                 similarity_scores = map score (filter (\<lambda>d. score d < 1.0) docs)\<rparr>,
                (case pipe of
                   Some p \<Rightarrow> [qa_prompt (qa_context srcs (filter (\<lambda>d. score d < 1.0) docs)) question]
                 | None \<Rightarrow> []))"
  using assms
  by (simp add: answer_question_def relevant_docs_def DISTANCE_THRESHOLD_def Let_def
      qa_context_def split: option.splits)

lemma answer_question_none_kept:
  assumes "retrieve results = Inr docs" and "filter (\<lambda>d. score d < 1.0) docs = []"
  shows "answer_question pipe set_order results question =
           Inr (\<lparr>answer = ''No relevant info found.'', citations = [], similarity_scores = []\<rparr>, [])"
  using assms by (simp add: answer_question_def relevant_docs_def DISTANCE_THRESHOLD_def)

text \<open>
  C5. In \<open>answer_question\<close> a retrieved passage survives exactly when its distance is
  strictly below the threshold 1.0. The passages at or above it are discarded entirely:
  the context of the prompt, the citations and the similarity scores are built from the
  survivors alone, in their order, and when none survives the fixed answer is returned.
  The scores of the retrieved passages are the distances of the store, and for the
  distances 0.2, 0.9 and 1.3 the first two passages survive.
\<close>

theorem answer_question_threshold:
  assumes "retrieve results = Inr docs"
  shows "(d \<in> set (relevant_docs docs) \<longleftrightarrow> d \<in> set docs \<and> score d < DISTANCE_THRESHOLD)
   \<and> relevant_docs docs = filter (\<lambda>d. score d < 1.0) docs
   \<and> DISTANCE_THRESHOLD = 1.0
   \<and> (filter (\<lambda>d. score d < 1.0) docs \<noteq> []
        \<and> sources_of (filter (\<lambda>d. score d < 1.0) docs) = Inr srcs \<longrightarrow>
        answer_question pipe set_order results question =
           Inr (\<lparr>answer =
                   (case pipe of
                      Some p \<Rightarrow>
                        assistant_part
                          (p (qa_prompt (qa_context srcs (filter (\<lambda>d. score d < 1.0) docs)) question))
                    | None \<Rightarrow> ''LLM not loaded. Cannot generate answer.''),
                 citations = set_order (remdups srcs),
                 similarity_scores = map score (filter (\<lambda>d. score d < 1.0) docs)\<rparr>,
                (case pipe of
                   Some p \<Rightarrow> [qa_prompt (qa_context srcs (filter (\<lambda>d. score d < 1.0) docs)) question]
                 | None \<Rightarrow> [])))
   \<and> (filter (\<lambda>d. score d < 1.0) docs = [] \<longrightarrow>
        answer_question pipe set_order results question =
           Inr (\<lparr>answer = ''No relevant info found.'', citations = [], similarity_scores = []\<rparr>, []))
   \<and> (documents results = docs0 # others \<and> distances results = ds0 # others'
        \<and> length docs0 = length ds0 \<longrightarrow> map score docs = ds0)
   \<and> (map score docs = [0.2, 0.9, 1.3] \<longrightarrow>
        length (relevant_docs docs) = 2 \<and> relevant_docs docs = take 2 docs
        \<and> map score (filter (\<lambda>d. score d < 1.0) docs) = [0.2, 0.9])"
proof -
  have a: "d \<in> set (relevant_docs docs) \<longleftrightarrow> d \<in> set docs \<and> score d < DISTANCE_THRESHOLD"
    by (simp add: relevant_docs_def)
  have b: "relevant_docs docs = filter (\<lambda>d. score d < 1.0) docs"
    by (simp add: relevant_docs_def DISTANCE_THRESHOLD_def)
  have c: "DISTANCE_THRESHOLD = 1.0"
    by (simp add: DISTANCE_THRESHOLD_def)
  note k = answer_question_kept[OF assms, of srcs pipe set_order question]
  note n = answer_question_none_kept[OF assms, of pipe set_order question]
  have s: "map score docs = ds0"
    if "documents results = docs0 # others" "distances results = ds0 # others'"
       "length docs0 = length ds0"
    using assms that by (rule retrieve_scores)
  have e: "length (relevant_docs docs) = 2 \<and> relevant_docs docs = take 2 docs
           \<and> map score (filter (\<lambda>d. score d < 1.0) docs) = [0.2, 0.9]"
    if h: "map score docs = [0.2, 0.9, 1.3]"
  proof -
    from h obtain x y z where docs: "docs = [x, y, z]"
      and sc: "score x = 0.2" "score y = 0.9" "score z = 1.3"
      by (auto simp: map_eq_Cons_conv)
    have "relevant_docs docs = [x, y]"
      unfolding docs relevant_docs_def DISTANCE_THRESHOLD_def by (simp add: sc)
    then show ?thesis
      using b by (simp add: docs sc)
  qed
  from a b c k n s e show ?thesis
    by blast
qed

theorem answer_question_threshold_witness:
  "retrieve demo_results
     = Inr [\<lparr>doc_text = ''Report incidents.'', doc_metadata = meta_of 0 ''general'', score = 0.2\<rparr>,
            \<lparr>doc_text = ''Keep records.'', doc_metadata = meta_of 1 ''general'', score = 0.9\<rparr>,
            \<lparr>doc_text = ''Lunch is at noon.'', doc_metadata = meta_of 2 ''general'', score = 1.3\<rparr>]
   \<and> answer_question None (\<lambda>xs. xs) demo_results ''What must I do?''
     = Inr (\<lparr>answer = ''LLM not loaded. Cannot generate answer.'', citations = [''nda.pdf''],
             similarity_scores = [0.2, 0.9]\<rparr>, [])
   \<and> answer_question (Some (\<lambda>prompt. prompt @ '' Report and keep records.'')) (\<lambda>xs. xs)
        demo_results ''What must I do?''
     = Inr (\<lparr>answer = ''Report and keep records.'', citations = [''nda.pdf''],
             similarity_scores = [0.2, 0.9]\<rparr>,
            [qa_prompt
               ''Source: nda.pdf\<newline>Content: Report incidents.\<newline>\<newline>Source: nda.pdf\<newline>Content: Keep records.''
               ''What must I do?''])"
proof -
  let ?a = "\<lparr>doc_text = ''Report incidents.'', doc_metadata = meta_of 0 ''general'', score = 0.2\<rparr>"
  let ?b = "\<lparr>doc_text = ''Keep records.'', doc_metadata = meta_of 1 ''general'', score = 0.9\<rparr>"
  let ?c = "\<lparr>doc_text = ''Lunch is at noon.'', doc_metadata = meta_of 2 ''general'', score = 1.3\<rparr>"
  let ?p = "\<lambda>prompt. prompt @ '' Report and keep records.''"
  let ?ctx = "''Source: nda.pdf\<newline>Content: Report incidents.\<newline>\<newline>Source: nda.pdf\<newline>Content: Keep records.''"
  have r: "retrieve demo_results = Inr [?a, ?b, ?c]"
    by (simp add: retrieve_def demo_results_def py_index_def)
  have f: "filter (\<lambda>d. score d < 1.0) [?a, ?b, ?c] = [?a, ?b]"
    by simp
  have s: "sources_of [?a, ?b] = Inr [''nda.pdf'', ''nda.pdf'']"
    by (simp add: source_of_def meta_of_def)
  have c: "qa_context [''nda.pdf'', ''nda.pdf''] [?a, ?b] = ?ctx"
    by (simp add: qa_context_def)
  have p: "assistant_part (qa_prompt ?ctx ''What must I do?'' @ '' Report and keep records.'')
             = ''Report and keep records.''"
    by code_simp
  have prem: "filter (\<lambda>d. score d < 1.0) [?a, ?b, ?c] \<noteq> []
              \<and> sources_of (filter (\<lambda>d. score d < 1.0) [?a, ?b, ?c]) = Inr [''nda.pdf'', ''nda.pdf'']"
    unfolding f using s by simp
  note k = answer_question_threshold[OF r, THEN conjunct2, THEN conjunct2, THEN conjunct2,
      THEN conjunct1, rule_format, OF prem]
  have 1: "answer_question None (\<lambda>xs. xs) demo_results ''What must I do?''
     = Inr (\<lparr>answer = ''LLM not loaded. Cannot generate answer.'', citations = [''nda.pdf''],
             similarity_scores = [0.2, 0.9]\<rparr>, [])"
    using k[where pipe = None and set_order = "\<lambda>xs. xs" and question = "''What must I do?''"]
    unfolding f by simp
  have 2: "answer_question (Some ?p) (\<lambda>xs. xs) demo_results ''What must I do?''
     = Inr (\<lparr>answer = ''Report and keep records.'', citations = [''nda.pdf''],
             similarity_scores = [0.2, 0.9]\<rparr>, [qa_prompt ?ctx ''What must I do?''])"
    using k[where pipe = "Some ?p" and set_order = "\<lambda>xs. xs" and question = "''What must I do?''"]
    unfolding f c by (simp add: p)
  from r 1 2 show ?thesis
    by blast
qed


section \<open>Response coercion and the degraded paths of the analysis\<close>

lemma ContractSchema_init_fallback:
  "ContractSchema_init L [(''doc_id'', JStr f), (''notes'', JStr n)] = Inr (degraded f n)"
  by (simp add: ContractSchema_init_def validate_fields_def validate_str_def validate_int_def
      validate_payment_terms_def degraded_def)

lemma try_body_raised: "try_body L (Inl e) = Inl e"
  by (simp add: try_body_def)

lemma coerce_response_returned:
  "try_body L loaded = Inr r \<Longrightarrow> coerce_response L loaded response f = Inr r"
  by (simp add: coerce_response_def)

lemma coerce_response_decode_error:
  "try_body L loaded = Inl (JSONDecodeError m) \<Longrightarrow>
   coerce_response L loaded response f
     = Inr (degraded f (''Failed to parse analysis result. Raw output: '' @ take 100 response))"
  by (simp add: coerce_response_def ContractSchema_init_fallback)

lemma coerce_response_other_error:
  assumes "try_body L loaded = Inl e" and "\<forall>m. e \<noteq> JSONDecodeError m"
  shows "coerce_response L loaded response f
           = Inr (degraded f (''Validation error: '' @ str_exn e))"
  using assms by (cases e) (simp_all add: coerce_response_def ContractSchema_init_fallback)

lemma coerce_response_total: "\<exists>r. coerce_response L loaded response f = Inr r"
proof (cases "try_body L loaded")
  case (Inr r)
  then show ?thesis by (simp add: coerce_response_returned)
next
  case (Inl e)
  show ?thesis
  proof (cases "\<exists>m. e = JSONDecodeError m")
    case True
    with Inl show ?thesis by (auto simp: coerce_response_decode_error)
  next
    case False
    with Inl show ?thesis by (simp add: coerce_response_other_error)
  qed
qed

text \<open>
  C1. For every generated text and every document id the coercion step returns a record
  and raises nothing: every exception of the \<open>try\<close> block is caught and the record built
  in a handler passes validation. When \<open>json.loads\<close> fails on the cleaned output, the
  record carries the document id, no other field, and the note "Failed to parse analysis
  result. Raw output: " followed by the first 100 characters of the cleaned output.
\<close>

theorem coerce_total:
  "(\<exists>r. coerce L json_loads generated_text file_name = Inr r)
   \<and> (\<forall>m. json_loads (clean_response generated_text) = Inl (JSONDecodeError m) \<longrightarrow>
          coerce L json_loads generated_text file_name =
            Inr \<lparr>doc_id = Some file_name, parties = None, effective_date = None,
                 termination_clause = None, confidentiality_clause = None,
                 governing_law = None, payment_terms = None, risk_score = None,
                 notes = Some (''Failed to parse analysis result. Raw output: ''
                               @ take 100 (clean_response generated_text))\<rparr>)"
proof -
  have "\<exists>r. coerce L json_loads generated_text file_name = Inr r"
    by (simp add: coerce_def Let_def coerce_response_total)
  moreover have "coerce L json_loads generated_text file_name =
      Inr (degraded file_name (''Failed to parse analysis result. Raw output: ''
                               @ take 100 (clean_response generated_text)))"
    if "json_loads (clean_response generated_text) = Inl (JSONDecodeError m)" for m
    using that by (simp add: coerce_def Let_def coerce_response_decode_error try_body_raised)
  ultimately show ?thesis
    unfolding degraded_def by blast
qed

theorem coerce_total_witness:
  "(\<lambda>s. Inl (JSONDecodeError ''Expecting value: line 1 column 1 (char 0)'') :: exn + json)
      (clean_response ''<|assistant|> Sorry, I cannot do that. '')
     = Inl (JSONDecodeError ''Expecting value: line 1 column 1 (char 0)'')
   \<and> clean_response ''<|assistant|> Sorry, I cannot do that. '' = ''Sorry, I cannot do that.''
   \<and> coerce no_conversion (\<lambda>s. Inl (JSONDecodeError ''Expecting value: line 1 column 1 (char 0)''))
        ''<|assistant|> Sorry, I cannot do that. '' ''nda.pdf''
     = Inr \<lparr>doc_id = Some ''nda.pdf'', parties = None, effective_date = None,
            termination_clause = None, confidentiality_clause = None,
            governing_law = None, payment_terms = None, risk_score = None,
            notes = Some ''Failed to parse analysis result. Raw output: Sorry, I cannot do that.''\<rparr>"
proof -
  have c: "clean_response ''<|assistant|> Sorry, I cannot do that. '' = ''Sorry, I cannot do that.''"
    by code_simp
  show ?thesis
    using coerce_total[of no_conversion
        "\<lambda>s. Inl (JSONDecodeError ''Expecting value: line 1 column 1 (char 0)'')"
        "''<|assistant|> Sorry, I cannot do that. ''" "''nda.pdf''"]
    by (simp add: c)
qed

text \<open>
  C10. On each degraded path of \<open>analyze\<close> (no chunk stored for the file, no pipeline
  loaded, \<open>json.loads\<close> failing, any other exception of the \<open>try\<close> block, among them a
  validation failure after repair) the record returned has the requested file name as
  \<open>doc_id\<close>, a note that explains the path, and null in every other field.
\<close>

theorem analyze_degraded_paths:
  "(docs = [] \<longrightarrow>
      analyze L json_loads pipe docs metas file_name = Inr (degraded file_name ''No content found.''))
   \<and> (docs \<noteq> [] \<and> pipe = None \<longrightarrow>
      analyze L json_loads pipe docs metas file_name = Inr (degraded file_name ''LLM not loaded.''))
   \<and> (docs \<noteq> [] \<and> pipe = Some p
        \<and> response = clean_response (p (extraction_prompt file_name (context_text docs metas)))
        \<and> json_loads response = Inl (JSONDecodeError m) \<longrightarrow>
      analyze L json_loads pipe docs metas file_name
        = Inr (degraded file_name
                 (''Failed to parse analysis result. Raw output: '' @ take 100 response)))
   \<and> (docs \<noteq> [] \<and> pipe = Some p
        \<and> response = clean_response (p (extraction_prompt file_name (context_text docs metas)))
        \<and> try_body L (json_loads response) = Inl e \<and> (\<forall>m. e \<noteq> JSONDecodeError m) \<longrightarrow>
      analyze L json_loads pipe docs metas file_name
        = Inr (degraded file_name (''Validation error: '' @ str_exn e)))
   \<and> degraded file_name note =
        \<lparr>doc_id = Some file_name, parties = None, effective_date = None,
         termination_clause = None, confidentiality_clause = None, governing_law = None,
         payment_terms = None, risk_score = None, notes = Some note\<rparr>"
proof -
  have 1: "analyze L json_loads pipe docs metas file_name
             = Inr (degraded file_name ''No content found.'')" if "docs = []"
    using that by (simp add: analyze_def ContractSchema_init_fallback)
  have 2: "analyze L json_loads pipe docs metas file_name
             = Inr (degraded file_name ''LLM not loaded.'')" if "docs \<noteq> []" "pipe = None"
    using that by (simp add: analyze_def ContractSchema_init_fallback)
  have 3: "analyze L json_loads pipe docs metas file_name
             = Inr (degraded file_name
                 (''Failed to parse analysis result. Raw output: '' @ take 100 response))"
    if "docs \<noteq> []" "pipe = Some p"
      "response = clean_response (p (extraction_prompt file_name (context_text docs metas)))"
      "json_loads response = Inl (JSONDecodeError m)"
    using that
    by (simp add: analyze_def coerce_def Let_def coerce_response_decode_error try_body_raised)
  have 4: "analyze L json_loads pipe docs metas file_name
             = Inr (degraded file_name (''Validation error: '' @ str_exn e))"
    if "docs \<noteq> []" "pipe = Some p"
      "response = clean_response (p (extraction_prompt file_name (context_text docs metas)))"
      "try_body L (json_loads response) = Inl e" "\<forall>m. e \<noteq> JSONDecodeError m"
    using that
    by (simp add: analyze_def coerce_def Let_def coerce_response_other_error)
  have 5: "degraded file_name note =
        \<lparr>doc_id = Some file_name, parties = None, effective_date = None,
         termination_clause = None, confidentiality_clause = None, governing_law = None,
         payment_terms = None, risk_score = None, notes = Some note\<rparr>"
    by (simp add: degraded_def)
  from 1 2 3 4 5 show ?thesis
    by blast
qed

theorem analyze_degraded_paths_witness:
  "analyze no_conversion (\<lambda>s. Inl (JSONDecodeError ''Expecting value'')) None [] [] ''nda.pdf''
     = Inr (degraded ''nda.pdf'' ''No content found.'')
   \<and> analyze no_conversion (\<lambda>s. Inl (JSONDecodeError ''Expecting value'')) None
        [''Either party may terminate.''] [meta_of 0 ''termination''] ''nda.pdf''
     = Inr (degraded ''nda.pdf'' ''LLM not loaded.'')
   \<and> analyze no_conversion (\<lambda>s. Inl (JSONDecodeError ''Expecting value''))
        (Some (\<lambda>prompt. ''<|assistant|> oops''))
        [''Either party may terminate.''] [meta_of 0 ''termination''] ''nda.pdf''
     = Inr (degraded ''nda.pdf'' ''Failed to parse analysis result. Raw output: oops'')
   \<and> try_body no_conversion (Inr (JObj [(''risk_score'', JList [JStr ''high''])]))
     = Inl (ValidationError ''risk_score'')
   \<and> analyze no_conversion (\<lambda>s. Inr (JObj [(''risk_score'', JList [JStr ''high''])]))
        (Some (\<lambda>prompt. ''<|assistant|> oops''))
        [''Either party may terminate.''] [meta_of 0 ''termination''] ''nda.pdf''
     = Inr (degraded ''nda.pdf'' ''Validation error: risk_score'')
   \<and> degraded ''nda.pdf'' ''LLM not loaded.'' =
        \<lparr>doc_id = Some ''nda.pdf'', parties = None, effective_date = None,
         termination_clause = None, confidentiality_clause = None, governing_law = None,
         payment_terms = None, risk_score = None, notes = Some ''LLM not loaded.''\<rparr>"
proof -
  let ?fail = "\<lambda>s::string. Inl (JSONDecodeError ''Expecting value'') :: exn + json"
  let ?bad = "\<lambda>s::string. Inr (JObj [(''risk_score'', JList [JStr ''high''])]) :: exn + json"
  let ?p = "\<lambda>prompt::string. ''<|assistant|> oops''"
  let ?docs = "[''Either party may terminate.'']"
  let ?metas = "[meta_of 0 ''termination'']"
  have c: "clean_response ''<|assistant|> oops'' = ''oops''"
    by code_simp
  have t: "try_body no_conversion (Inr (JObj [(''risk_score'', JList [JStr ''high''])]))
             = Inl (ValidationError ''risk_score'')"
    by code_simp
  have 1: "analyze no_conversion ?fail None [] [] ''nda.pdf''
             = Inr (degraded ''nda.pdf'' ''No content found.'')"
    using analyze_degraded_paths[of "[]" no_conversion ?fail None "[]" "''nda.pdf''"]
    by simp
  have 2: "analyze no_conversion ?fail None ?docs ?metas ''nda.pdf''
             = Inr (degraded ''nda.pdf'' ''LLM not loaded.'')"
    using analyze_degraded_paths[of ?docs no_conversion ?fail None ?metas "''nda.pdf''"]
    by simp
  have 3: "analyze no_conversion ?fail (Some ?p) ?docs ?metas ''nda.pdf''
             = Inr (degraded ''nda.pdf'' ''Failed to parse analysis result. Raw output: oops'')"
    using analyze_degraded_paths[of ?docs no_conversion ?fail "Some ?p" ?metas "''nda.pdf''" ?p
        "''oops''" "''Expecting value''"]
    by (simp add: c)
  have 4: "analyze no_conversion ?bad (Some ?p) ?docs ?metas ''nda.pdf''
             = Inr (degraded ''nda.pdf'' ''Validation error: risk_score'')"
    using analyze_degraded_paths[of ?docs no_conversion ?bad "Some ?p" ?metas "''nda.pdf''" ?p
        "''oops''" _ "ValidationError ''risk_score''"]
    by (simp add: c t)
  have 5: "degraded ''nda.pdf'' ''LLM not loaded.'' =
        \<lparr>doc_id = Some ''nda.pdf'', parties = None, effective_date = None,
         termination_clause = None, confidentiality_clause = None, governing_law = None,
         payment_terms = None, risk_score = None, notes = Some ''LLM not loaded.''\<rparr>"
    using analyze_degraded_paths[of "[]" no_conversion ?fail None "[]" "''nda.pdf''" _ _ _ _
        "''LLM not loaded.''"]
    by simp
  from 1 2 3 4 5 t show ?thesis
    by simp
qed

section \<open>Shape repair\<close>

lemma map_of_dict_set:
  "map_of (dict_set d k v) k' = (if k' = k then Some v else map_of d k')"
  by (induction d k v rule: dict_set.induct) auto

lemma repair_string_field_other:
  "f \<noteq> g \<Longrightarrow> map_of (repair_string_field d g) f = map_of d f"
  by (simp add: repair_string_field_def Let_def map_of_dict_set split: json.splits)

lemma repair_string_field_list:
  "map_of d f = Some (JList items) \<Longrightarrow> items \<noteq> [] \<Longrightarrow>
   map_of (repair_string_field d f) f = Some (JStr (py_join '', '' (map py_str items)))"
  by (simp add: repair_string_field_def dict_get_def map_of_dict_set)

lemma repair_string_field_dict:
  "map_of d f = Some (JObj kvs) \<Longrightarrow> kvs \<noteq> [] \<Longrightarrow>
   map_of (repair_string_field d f) f
     = Some (JStr (py_join '', '' (map (\<lambda>(k, v). k @ '': '' @ py_str v) kvs)))"
  by (simp add: repair_string_field_def dict_get_def map_of_dict_set)

lemma foldl_repair_other:
  "f \<notin> set fs \<Longrightarrow> map_of (foldl repair_string_field d fs) f = map_of d f"
  by (induction fs arbitrary: d) (auto simp: repair_string_field_other)

lemma foldl_repair_once:
  assumes "f \<in> set fs" and "distinct fs"
  shows "map_of (foldl repair_string_field d fs) f = map_of (repair_string_field d f) f"
  using assms
proof (induction fs arbitrary: d)
  case Nil
  then show ?case by simp
next
  case (Cons g fs)
  show ?case
  proof (cases "f = g")
    case True
    with Cons.prems have "f \<notin> set fs" by simp
    then show ?thesis using True by (simp add: foldl_repair_other)
  next
    case False
    with Cons.prems have "f \<in> set fs" "distinct fs" by simp_all
    then have "map_of (foldl repair_string_field (repair_string_field d g) fs) f
               = map_of (repair_string_field (repair_string_field d g) f) f"
      by (rule Cons.IH)
    also have "\<dots> = map_of (repair_string_field d f) f"
      using False
      by (simp add: repair_string_field_def[of _ f] dict_get_def Let_def map_of_dict_set
          repair_string_field_other split: json.splits option.splits)
    finally show ?thesis by simp
  qed
qed

lemma repair_payment_terms_other:
  "f \<noteq> ''payment_terms'' \<Longrightarrow> map_of (repair_payment_terms d) f = map_of d f"
  by (simp add: repair_payment_terms_def Let_def map_of_dict_set split: json.splits)

lemma string_fields_facts:
  "distinct string_fields" "''payment_terms'' \<notin> set string_fields"
  by (simp_all add: string_fields_def)

lemma ContractSchema_init_str_field:
  assumes "ContractSchema_init L kwargs = Inr r" and "f \<in> set string_fields"
  shows "validate_str L (map_of kwargs f) = Some (getattr_str r f)"
proof -
  from assms(1) have "validate_fields L kwargs = Some r"
    by (simp add: ContractSchema_init_def split: option.splits)
  then have v:
       "validate_str L (map_of kwargs ''parties'') = Some (parties r)"
       "validate_str L (map_of kwargs ''effective_date'') = Some (effective_date r)"
       "validate_str L (map_of kwargs ''termination_clause'') = Some (termination_clause r)"
       "validate_str L (map_of kwargs ''confidentiality_clause'') = Some (confidentiality_clause r)"
       "validate_str L (map_of kwargs ''governing_law'') = Some (governing_law r)"
       "validate_str L (map_of kwargs ''notes'') = Some (notes r)"
    unfolding validate_fields_def by (clarsimp simp: bind_eq_Some_conv)+
  from assms(2) have "f = ''parties'' \<or> f = ''effective_date'' \<or> f = ''termination_clause''
    \<or> f = ''confidentiality_clause'' \<or> f = ''governing_law'' \<or> f = ''notes''"
    by (simp add: string_fields_def)
  then show ?thesis
    by (elim disjE) (simp_all add: v getattr_str_def)
qed

lemma try_body_dict:
  "try_body L (Inr (JObj d)) = ContractSchema_init L (repaired_kwargs d)"
  by (simp add: try_body_def repaired_kwargs_def)

lemma repaired_field:
  assumes "f \<in> set string_fields"
  shows "map_of (repaired_kwargs d) f = map_of (repair_string_field d f) f"
proof -
  from assms have "f \<noteq> ''payment_terms''"
    using string_fields_facts(2) by blast
  then show ?thesis
    using assms
    by (simp add: repaired_kwargs_def repair_payment_terms_other foldl_repair_once
        string_fields_facts(1))
qed

lemma validate_str_JStr: "validate_str L (Some (JStr s)) = Some (Some s)"
  by (simp add: validate_str_def)

lemma refused_fields_empty_iff:
  "refused_fields L kwargs = [] \<longleftrightarrow>
     validate_str L (map_of kwargs ''doc_id'') \<noteq> None
     \<and> validate_str L (map_of kwargs ''parties'') \<noteq> None
     \<and> validate_str L (map_of kwargs ''effective_date'') \<noteq> None
     \<and> validate_str L (map_of kwargs ''termination_clause'') \<noteq> None
     \<and> validate_str L (map_of kwargs ''confidentiality_clause'') \<noteq> None
     \<and> validate_str L (map_of kwargs ''governing_law'') \<noteq> None
     \<and> validate_payment_terms L (map_of kwargs ''payment_terms'') \<noteq> None
     \<and> validate_int L (map_of kwargs ''risk_score'') \<noteq> None
     \<and> validate_str L (map_of kwargs ''notes'') \<noteq> None"
  unfolding refused_fields_def by (simp add: filter_empty_conv)

lemma validate_fields_None_iff:
  "validate_fields L kwargs = None \<longleftrightarrow> refused_fields L kwargs \<noteq> []"
  unfolding refused_fields_empty_iff validate_fields_def
  by (auto simp: bind_eq_None_conv)

lemma refused_fields_member:
  "f \<in> set (map fst (filter snd checks)) \<longleftrightarrow> (f, True) \<in> set checks"
  by (induction checks) auto

lemma accepted_field_not_refused:
  assumes "f \<in> set string_fields" and "validate_str L (map_of kwargs f) \<noteq> None"
  shows "f \<notin> set (refused_fields L kwargs)"
proof -
  from assms(1) have "f = ''parties'' \<or> f = ''effective_date'' \<or> f = ''termination_clause''
    \<or> f = ''confidentiality_clause'' \<or> f = ''governing_law'' \<or> f = ''notes''"
    by (simp add: string_fields_def)
  then show ?thesis
    using assms(2) unfolding refused_fields_def refused_fields_member
    by (elim disjE) simp_all
qed

lemma coerce_response_dict:
  "coerce_response L (Inr (JObj d)) response f =
     (if refused_fields L (repaired_kwargs d) = []
      then Inr (the (validate_fields L (repaired_kwargs d)))
      else Inr (degraded f (''Validation error: ''
                             @ error_text L (refused_fields L (repaired_kwargs d)))))"
proof (cases "validate_fields L (repaired_kwargs d)")
  case None
  then have "refused_fields L (repaired_kwargs d) \<noteq> []"
    by (simp add: validate_fields_None_iff)
  moreover from None have "try_body L (Inr (JObj d))
      = Inl (ValidationError (error_text L (refused_fields L (repaired_kwargs d))))"
    by (simp add: try_body_dict ContractSchema_init_def)
  ultimately show ?thesis
    by (simp add: coerce_response_def ContractSchema_init_fallback)
next
  case (Some r)
  then have "refused_fields L (repaired_kwargs d) = []"
    using validate_fields_None_iff[of L "repaired_kwargs d"] by simp
  moreover from Some have "try_body L (Inr (JObj d)) = Inr r"
    by (simp add: try_body_dict ContractSchema_init_def)
  ultimately show ?thesis
    using Some by (simp add: coerce_response_def)
qed

lemma repaired_value_in_result:
  assumes "f \<in> set string_fields" and "map_of (repaired_kwargs d) f = Some (JStr joined)"
  shows "f \<notin> set (refused_fields L (repaired_kwargs d))
       \<and> (if refused_fields L (repaired_kwargs d) = []
          then \<exists>r. coerce_response L (Inr (JObj d)) response file_name = Inr r
                   \<and> getattr_str r f = Some joined
          else coerce_response L (Inr (JObj d)) response file_name
                 = Inr (degraded file_name
                     (''Validation error: ''
                      @ error_text L (refused_fields L (repaired_kwargs d)))))"
proof -
  have v: "validate_str L (map_of (repaired_kwargs d) f) = Some (Some joined)"
    by (simp add: assms(2) validate_str_JStr)
  then have a: "f \<notin> set (refused_fields L (repaired_kwargs d))"
    using assms(1) by (intro accepted_field_not_refused) simp_all
  show ?thesis
  proof (cases "refused_fields L (repaired_kwargs d) = []")
    case True
    then obtain r where r: "validate_fields L (repaired_kwargs d) = Some r"
      using validate_fields_None_iff[of L "repaired_kwargs d"] by auto
    then have "ContractSchema_init L (repaired_kwargs d) = Inr r"
      by (simp add: ContractSchema_init_def)
    from ContractSchema_init_str_field[OF this assms(1)] v have "getattr_str r f = Some joined"
      by simp
    moreover have "coerce_response L (Inr (JObj d)) response file_name = Inr r"
      using True r by (simp add: coerce_response_dict)
    ultimately show ?thesis
      using a True by simp
  next
    case False
    then show ?thesis
      using a by (simp add: coerce_response_dict)
  qed
qed

text \<open>
  C2, as amended. Let the parsed output be a JSON object. A string-typed field that holds
  a non-empty list is replaced by the \<open>str\<close> of its elements joined with ", ", and one
  that holds a non-empty mapping by its "key: value" pairs joined with ", "; validation
  accepts the field so repaired. The record returned holds that string in the field when
  validation refuses no field; when it refuses another field, the record returned is the
  one of the validation handler.
\<close>

theorem repair_joins_lists_and_mappings:
  assumes "field \<in> set string_fields"
  shows "(\<forall>items. map_of d field = Some (JList items) \<and> items \<noteq> [] \<longrightarrow>
            map_of (repaired_kwargs d) field = Some (JStr (py_join '', '' (map py_str items)))
            \<and> field \<notin> set (refused_fields L (repaired_kwargs d))
            \<and> (if refused_fields L (repaired_kwargs d) = []
               then \<exists>r. coerce_response L (Inr (JObj d)) response file_name = Inr r
                        \<and> getattr_str r field = Some (py_join '', '' (map py_str items))
               else coerce_response L (Inr (JObj d)) response file_name
                      = Inr (degraded file_name
                          (''Validation error: ''
                           @ error_text L (refused_fields L (repaired_kwargs d))))))
       \<and> (\<forall>kvs. map_of d field = Some (JObj kvs) \<and> kvs \<noteq> [] \<longrightarrow>
            map_of (repaired_kwargs d) field
              = Some (JStr (py_join '', '' (map (\<lambda>(k, v). k @ '': '' @ py_str v) kvs)))
            \<and> field \<notin> set (refused_fields L (repaired_kwargs d))
            \<and> (if refused_fields L (repaired_kwargs d) = []
               then \<exists>r. coerce_response L (Inr (JObj d)) response file_name = Inr r
                        \<and> getattr_str r field
                            = Some (py_join '', '' (map (\<lambda>(k, v). k @ '': '' @ py_str v) kvs))
               else coerce_response L (Inr (JObj d)) response file_name
                      = Inr (degraded file_name
                          (''Validation error: ''
                           @ error_text L (refused_fields L (repaired_kwargs d))))))
       \<and> try_body L (Inr (JObj d)) = ContractSchema_init L (repaired_kwargs d)
       \<and> repaired_kwargs d = repair_payment_terms (foldl repair_string_field d string_fields)"
proof -
  have 1: "map_of (repaired_kwargs d) field = Some (JStr (py_join '', '' (map py_str items)))"
    if "map_of d field = Some (JList items)" "items \<noteq> []" for items
    using repair_string_field_list[OF that] by (simp add: repaired_field[OF assms])
  have 2: "map_of (repaired_kwargs d) field
              = Some (JStr (py_join '', '' (map (\<lambda>(k, v). k @ '': '' @ py_str v) kvs)))"
    if "map_of d field = Some (JObj kvs)" "kvs \<noteq> []" for kvs
    using repair_string_field_dict[OF that] by (simp add: repaired_field[OF assms])
  note 3 = repaired_value_in_result[OF assms, of d _ L response file_name]
  have 4: "try_body L (Inr (JObj d)) = ContractSchema_init L (repaired_kwargs d)"
    by (rule try_body_dict)
  have 5: "repaired_kwargs d = repair_payment_terms (foldl repair_string_field d string_fields)"
    by (rule repaired_kwargs_def)
  show ?thesis
  proof (intro conjI allI impI)
    fix items assume "map_of d field = Some (JList items) \<and> items \<noteq> []"
    then have m: "map_of (repaired_kwargs d) field = Some (JStr (py_join '', '' (map py_str items)))"
      using 1 by blast
    show "map_of (repaired_kwargs d) field = Some (JStr (py_join '', '' (map py_str items)))"
      by (rule m)
    show "field \<notin> set (refused_fields L (repaired_kwargs d))"
      using 3[OF m] by blast
    show "if refused_fields L (repaired_kwargs d) = []
          then \<exists>r. coerce_response L (Inr (JObj d)) response file_name = Inr r
                   \<and> getattr_str r field = Some (py_join '', '' (map py_str items))
          else coerce_response L (Inr (JObj d)) response file_name
                 = Inr (degraded file_name
                     (''Validation error: ''
                      @ error_text L (refused_fields L (repaired_kwargs d))))"
      using 3[OF m] by blast
  next
    fix kvs assume "map_of d field = Some (JObj kvs) \<and> kvs \<noteq> []"
    then have m: "map_of (repaired_kwargs d) field
              = Some (JStr (py_join '', '' (map (\<lambda>(k, v). k @ '': '' @ py_str v) kvs)))"
      using 2 by blast
    show "map_of (repaired_kwargs d) field
              = Some (JStr (py_join '', '' (map (\<lambda>(k, v). k @ '': '' @ py_str v) kvs)))"
      by (rule m)
    show "field \<notin> set (refused_fields L (repaired_kwargs d))"
      using 3[OF m] by blast
    show "if refused_fields L (repaired_kwargs d) = []
          then \<exists>r. coerce_response L (Inr (JObj d)) response file_name = Inr r
                   \<and> getattr_str r field
                       = Some (py_join '', '' (map (\<lambda>(k, v). k @ '': '' @ py_str v) kvs))
          else coerce_response L (Inr (JObj d)) response file_name
                 = Inr (degraded file_name
                     (''Validation error: ''
                      @ error_text L (refused_fields L (repaired_kwargs d))))"
      using 3[OF m] by blast
  next
    show "try_body L (Inr (JObj d)) = ContractSchema_init L (repaired_kwargs d)" by (rule 4)
    show "repaired_kwargs d = repair_payment_terms (foldl repair_string_field d string_fields)"
      by (rule 5)
  qed
qed

theorem repair_joins_lists_and_mappings_witness:
  "''parties'' \<in> set string_fields
   \<and> map_of (repaired_kwargs
        [(''parties'', JList [JStr ''Acme Corp'', JStr ''Bob Ltd'']),
         (''governing_law'', JObj [(''state'', JStr ''New York'')]),
         (''risk_score'', JInt 40)]) ''parties''
     = Some (JStr ''Acme Corp, Bob Ltd'')
   \<and> ''parties'' \<notin> set (refused_fields no_conversion (repaired_kwargs
        [(''parties'', JList [JStr ''Acme Corp'', JStr ''Bob Ltd'']),
         (''governing_law'', JObj [(''state'', JStr ''New York'')]),
         (''risk_score'', JInt 40)]))
   \<and> refused_fields no_conversion (repaired_kwargs
        [(''parties'', JList [JStr ''Acme Corp'', JStr ''Bob Ltd'']),
         (''governing_law'', JObj [(''state'', JStr ''New York'')]),
         (''risk_score'', JInt 40)]) = []
   \<and> coerce_response no_conversion
        (Inr (JObj [(''parties'', JList [JStr ''Acme Corp'', JStr ''Bob Ltd'']),
                    (''governing_law'', JObj [(''state'', JStr ''New York'')]),
                    (''risk_score'', JInt 40)])) ''{}'' ''nda.pdf''
     = Inr \<lparr>doc_id = None, parties = Some ''Acme Corp, Bob Ltd'', effective_date = None,
            termination_clause = None, confidentiality_clause = None,
            governing_law = Some ''state: New York'', payment_terms = None,
            risk_score = Some 40, notes = None\<rparr>"
proof -
  let ?d = "[(''parties'', JList [JStr ''Acme Corp'', JStr ''Bob Ltd'']),
         (''governing_law'', JObj [(''state'', JStr ''New York'')]),
         (''risk_score'', JInt 40)]"
  have f: "''parties'' \<in> set string_fields"
    by (simp add: string_fields_def)
  have g: "map_of ?d ''parties'' = Some (JList [JStr ''Acme Corp'', JStr ''Bob Ltd''])
           \<and> [JStr ''Acme Corp'', JStr ''Bob Ltd''] \<noteq> []"
    by simp
  have e: "refused_fields no_conversion (repaired_kwargs ?d) = []"
    by code_simp
  have c: "coerce_response no_conversion (Inr (JObj ?d)) ''{}'' ''nda.pdf''
     = Inr \<lparr>doc_id = None, parties = Some ''Acme Corp, Bob Ltd'', effective_date = None,
            termination_clause = None, confidentiality_clause = None,
            governing_law = Some ''state: New York'', payment_terms = None,
            risk_score = Some 40, notes = None\<rparr>"
    by code_simp
  from repair_joins_lists_and_mappings[OF f, of ?d no_conversion "''{}''" "''nda.pdf''"] g
  have "map_of (repaired_kwargs ?d) ''parties''
          = Some (JStr (py_join '', '' (map py_str [JStr ''Acme Corp'', JStr ''Bob Ltd''])))
        \<and> ''parties'' \<notin> set (refused_fields no_conversion (repaired_kwargs ?d))"
    by blast
  then have "map_of (repaired_kwargs ?d) ''parties'' = Some (JStr ''Acme Corp, Bob Ltd'')
        \<and> ''parties'' \<notin> set (refused_fields no_conversion (repaired_kwargs ?d))"
    by (simp add: py_str_def)
  with f e c show ?thesis
    by blast
qed

text \<open>A list given for \<open>risk_score\<close> is refused, whatever the library parameters, and the
  record returned is the one of the validation handler.\<close>

lemma risk_score_list_is_refused:
  "coerce_response L
     (Inr (JObj [(''parties'', JList [JStr ''Acme Corp'', JStr ''Bob Ltd'']),
                 (''risk_score'', JList [JStr ''high''])])) response f
     = Inr (degraded f (''Validation error: '' @ error_text L [''risk_score'']))"
proof -
  have k: "repaired_kwargs [(''parties'', JList [JStr ''Acme Corp'', JStr ''Bob Ltd'']),
                 (''risk_score'', JList [JStr ''high''])]
             = [(''parties'', JStr ''Acme Corp, Bob Ltd''), (''risk_score'', JList [JStr ''high''])]"
    by code_simp
  have r: "refused_fields L [(''parties'', JStr ''Acme Corp, Bob Ltd''),
                            (''risk_score'', JList [JStr ''high''])] = [''risk_score'']"
    by (simp add: refused_fields_def validate_str_def validate_int_def validate_payment_terms_def)
  show ?thesis
    unfolding coerce_response_dict k r by simp
qed

text \<open>
  C2 as stated fails: a valid JSON object whose \<open>parties\<close> field is a list, and whose
  \<open>risk_score\<close> is refused by validation, yields a record in which \<open>parties\<close> is null.
\<close>

theorem repair_lost_on_validation_error:
  "\<not> isl (coerce_response no_conversion
            (Inr (JObj [(''parties'', JList [JStr ''Acme Corp'', JStr ''Bob Ltd'']),
                        (''risk_score'', JList [JStr ''high''])])) ''{}'' ''nda.pdf'')
   \<and> parties (projr (coerce_response no_conversion
            (Inr (JObj [(''parties'', JList [JStr ''Acme Corp'', JStr ''Bob Ltd'']),
                        (''risk_score'', JList [JStr ''high''])])) ''{}'' ''nda.pdf'')) = None
   \<and> parties (projr (coerce_response no_conversion
            (Inr (JObj [(''parties'', JList [JStr ''Acme Corp'', JStr ''Bob Ltd'']),
                        (''risk_score'', JList [JStr ''high''])])) ''{}'' ''nda.pdf''))
       \<noteq> Some ''Acme Corp, Bob Ltd''"
  by (simp add: risk_score_list_is_refused degraded_def)

text \<open>An empty list passes the test \<open>if val:\<close> as false and is left as it is; validation
  then refuses it, whatever the library parameters.\<close>

lemma empty_list_is_not_repaired:
  "repair_string_field [(''parties'', JList [])] ''parties'' = [(''parties'', JList [])]
   \<and> coerce_response L (Inr (JObj [(''parties'', JList [])])) response f
       = Inr (degraded f (''Validation error: '' @ error_text L [''parties'']))"
proof -
  have r: "repaired_kwargs [(''parties'', JList [])] = [(''parties'', JList [])]"
    by (simp add: repaired_kwargs_def repair_payment_terms_def repair_string_field_def
        string_fields_def dict_get_def)
  have "try_body L (Inr (JObj [(''parties'', JList [])]))
          = Inl (ValidationError (error_text L [''parties'']))"
    unfolding try_body_dict r
    by (simp add: ContractSchema_init_def validate_fields_def refused_fields_def
        validate_str_def validate_int_def validate_payment_terms_def)
  then have "coerce_response L (Inr (JObj [(''parties'', JList [])])) response f
       = Inr (degraded f (''Validation error: '' @ error_text L [''parties'']))"
    by (simp add: coerce_response_def ContractSchema_init_def validate_fields_def
        validate_str_def validate_int_def validate_payment_terms_def degraded_def)
  moreover have "repair_string_field [(''parties'', JList [])] ''parties'' = [(''parties'', JList [])]"
    by (simp add: repair_string_field_def dict_get_def)
  ultimately show ?thesis by simp
qed


section \<open>Smart context assembly\<close>

lemma if_append_to:
  "(if c then append_to rs k doc else rs) = rs(k := rs k @ (if c then [doc] else []))"
  by (auto simp: append_to_def)

lemma distribute_key:
  "distribute rs (doc, meta) key = rs key @ (if in_bucket key meta then [doc] else [])"
  unfolding distribute_def Let_def if_append_to
  by (simp add: in_bucket_def tags_of_def)

lemma foldl_distribute:
  "foldl distribute rs pairs key = rs key @ map fst (filter (\<lambda>dm. in_bucket key (snd dm)) pairs)"
proof (induction pairs arbitrary: rs)
  case Nil
  then show ?case by simp
next
  case (Cons dm pairs)
  have "distribute rs dm key = rs key @ (if in_bucket key (snd dm) then [fst dm] else [])"
    using distribute_key[of rs "fst dm" "snd dm" key] by simp
  then show ?case
    by (simp add: Cons.IH)
qed

lemma build_sections_members: "build_sections docs metas key = members key docs metas"
  by (simp add: build_sections_def members_def foldl_distribute empty_sections_def)

lemma subseq_take: "subseq (take n xs) xs"
  by (metis append_take_drop_id list_emb_append_mono list_emb_Nil subseq_order.order_refl append_Nil2)

lemma subseq_members: "subseq (members key docs metas) docs"
proof -
  have "subseq (filter (\<lambda>dm. in_bucket key (snd dm)) (zip docs metas)) (zip docs metas)"
    by simp
  then have "subseq (members key docs metas) (map fst (zip docs metas))"
    unfolding members_def by (rule subseq_map)
  moreover have "subseq (map fst (zip docs metas)) docs"
    by (simp add: map_fst_zip_take subseq_take)
  ultimately show ?thesis
    by (metis subseq_order.order_trans)
qed

lemma sublist_py_join: "x \<in> set xs \<Longrightarrow> sublist x (py_join sep xs)"
proof (induction sep xs rule: py_join.induct)
  case (1 sep)
  then show ?case by simp
next
  case (2 sep y)
  then show ?case by simp
next
  case (3 sep y z zs)
  show ?case
  proof (cases "x = y")
    case True
    then show ?thesis by (simp add: sublist_append_rightI)
  next
    case False
    with 3 have "sublist x (py_join sep (z # zs))" by simp
    then show ?thesis
      by (metis py_join.simps(3) sublist_append_leftI sublist_order.order_trans)
  qed
qed

lemma py_join_take_hd:
  assumes "xs \<noteq> []" and "0 < n"
  shows "prefix (hd xs) (py_join sep (take n xs))"
proof -
  from assms obtain zs where t: "take n xs = hd xs # zs"
    by (cases xs; cases n) auto
  show ?thesis
    unfolding t by (cases zs) simp_all
qed

lemma context_parts_render:
  "context_parts rs = map (render_section rs) section_order"
  by (simp add: context_parts_def section_order_def render_section_def get_top_chunks_def)

lemma render_section_header:
  "prefix (''--- '' @ fst lkn @ '' ---\<newline>'') (render_section rs lkn)"
  by (cases lkn) (simp add: render_section_def)

lemma section_order_positive: "lkn \<in> set section_order \<Longrightarrow> 0 < snd (snd lkn)"
  by (auto simp: section_order_def)

lemma render_section_first_chunk:
  assumes "lkn \<in> set section_order" and "rs (fst (snd lkn)) \<noteq> []"
  shows "prefix (''--- '' @ fst lkn @ '' ---\<newline>'' @ hd (rs (fst (snd lkn)))) (render_section rs lkn)"
proof -
  obtain label key n where lkn: "lkn = (label, key, n)" by (cases lkn) auto
  from assms have "prefix (hd (rs key)) (py_join ''\<newline>...\<newline>'' (take n (rs key)))"
    using section_order_positive[OF assms(1)] by (simp add: lkn py_join_take_hd)
  then show ?thesis
    by (simp add: lkn render_section_def)
qed

lemma sublist_full_context:
  assumes "lkn \<in> set section_order" and "prefix x (render_section (build_sections docs metas) lkn)"
  shows "sublist x (full_context docs metas)"
proof -
  have "sublist (render_section (build_sections docs metas) lkn) (full_context docs metas)"
    unfolding full_context_def context_parts_render
    using assms(1) by (intro sublist_py_join) simp
  moreover from assms(2) have "sublist x (render_section (build_sections docs metas) lkn)"
    by (rule prefix_imp_sublist)
  ultimately show ?thesis
    by (metis sublist_order.order_trans)
qed

text \<open>
  C6, as amended. The assembled context is made of seven labeled sections in the fixed
  order intro, parties, dates, termination, law, payment, risk factors, joined by blank
  lines. Each of the seven is rendered whether its bucket is empty or not (an empty bucket
  gives the label line with nothing under it), and a non-empty bucket among them has its
  first chunk right under its label.
\<close>

theorem context_sections_in_fixed_order:
  "full_context docs metas
     = py_join ''\<newline>\<newline>'' (map (render_section (build_sections docs metas)) section_order)
   \<and> map fst section_order
       = [''INTRO'', ''PARTIES'', ''DATES'', ''TERMINATION'', ''LAW'', ''PAYMENT'',
          ''RISK FACTORS (Liability/IP/Restrictions)'']
   \<and> map (fst \<circ> snd) section_order
       = [''general'', ''parties'', ''effective_date'', ''termination'', ''governing_law'',
          ''payment_terms'', ''liability'']
   \<and> (\<forall>lkn \<in> set section_order.
         sublist (''--- '' @ fst lkn @ '' ---\<newline>'') (full_context docs metas))
   \<and> (\<forall>lkn \<in> set section_order.
         build_sections docs metas (fst (snd lkn)) \<noteq> [] \<longrightarrow>
         sublist (''--- '' @ fst lkn @ '' ---\<newline>'' @ hd (build_sections docs metas (fst (snd lkn))))
           (full_context docs metas))"
proof -
  have a: "full_context docs metas
     = py_join ''\<newline>\<newline>'' (map (render_section (build_sections docs metas)) section_order)"
    by (simp add: full_context_def context_parts_render)
  have b: "map fst section_order
       = [''INTRO'', ''PARTIES'', ''DATES'', ''TERMINATION'', ''LAW'', ''PAYMENT'',
          ''RISK FACTORS (Liability/IP/Restrictions)'']"
    by (simp add: section_order_def)
  have c: "map (fst \<circ> snd) section_order
       = [''general'', ''parties'', ''effective_date'', ''termination'', ''governing_law'',
          ''payment_terms'', ''liability'']"
    by (simp add: section_order_def)
  have d: "sublist (''--- '' @ fst lkn @ '' ---\<newline>'') (full_context docs metas)"
    if "lkn \<in> set section_order" for lkn
    using that render_section_header by (rule sublist_full_context)
  have e: "sublist (''--- '' @ fst lkn @ '' ---\<newline>'' @ hd (build_sections docs metas (fst (snd lkn))))
           (full_context docs metas)"
    if "lkn \<in> set section_order" "build_sections docs metas (fst (snd lkn)) \<noteq> []" for lkn
    using that(1) render_section_first_chunk[of lkn "build_sections docs metas", OF that]
    by (rule sublist_full_context)
  from a b c d e show ?thesis
    by blast
qed

theorem context_sections_in_fixed_order_witness:
  "(''TERMINATION'', ''termination'', 2) \<in> set section_order
   \<and> build_sections [''Either party may terminate.''] [meta_of 7 ''termination''] ''termination''
       = [''Either party may terminate.'']
   \<and> sublist ''--- TERMINATION ---\<newline>Either party may terminate.''
        (full_context [''Either party may terminate.''] [meta_of 7 ''termination''])
   \<and> sublist ''--- PAYMENT ---\<newline>''
        (full_context [''Either party may terminate.''] [meta_of 7 ''termination''])"
proof -
  let ?docs = "[''Either party may terminate.'']"
  let ?metas = "[meta_of 7 ''termination'']"
  have m: "(''TERMINATION'', ''termination'', 2) \<in> set section_order"
          "(''PAYMENT'', ''payment_terms'', 2) \<in> set section_order"
    by (simp_all add: section_order_def)
  have b: "build_sections ?docs ?metas ''termination'' = [''Either party may terminate.'']"
    by code_simp
  from context_sections_in_fixed_order[of ?docs ?metas] m b show ?thesis
    by fastforce
qed

text \<open>
  C6 as stated fails: for a document whose only chunk falls into no bucket, every bucket
  is empty, and still all seven sections are rendered, each an empty label line.
\<close>

theorem empty_buckets_are_rendered:
  "build_sections [''Hello.''] [meta_of 5 ''general''] ''general'' = []
   \<and> build_sections [''Hello.''] [meta_of 5 ''general''] ''parties'' = []
   \<and> full_context [''Hello.''] [meta_of 5 ''general'']
       = ''--- INTRO ---\<newline>\<newline>\<newline>--- PARTIES ---\<newline>\<newline>\<newline>--- DATES ---\<newline>\<newline>\<newline>--- TERMINATION ---\<newline>\<newline>\<newline>--- LAW ---\<newline>\<newline>\<newline>--- PAYMENT ---\<newline>\<newline>\<newline>--- RISK FACTORS (Liability/IP/Restrictions) ---\<newline>''"
  by code_simp

text \<open>The bucket \<open>confidentiality\<close> is filled by the loop and read by no section: a chunk
  that is in this bucket alone does not reach the context.\<close>

lemma confidentiality_bucket_is_not_rendered:
  "build_sections [''Keep it secret.''] [meta_of 5 ''confidentiality''] ''confidentiality''
     = [''Keep it secret.'']
   \<and> full_context [''Keep it secret.''] [meta_of 5 ''confidentiality'']
       = full_context [''Hello.''] [meta_of 5 ''general'']"
  by code_simp

text \<open>
  Selection within the buckets. Every bucket holds its member chunks in store order. The
  section of a bucket shows the first chunks of the bucket, joined in that order: three
  for the intro and the risk factors, two for parties, dates, termination, law and
  payment. These are seven of the eight buckets; no section reads the bucket
  \<open>confidentiality\<close>.
\<close>

theorem sections_take_first_members_in_store_order:
  "build_sections docs metas key = members key docs metas
   \<and> subseq (members key docs metas) docs
   \<and> get_top_chunks chunks limit = py_join ''\<newline>...\<newline>'' (take limit chunks)
   \<and> prefix (take limit chunks) chunks
   \<and> context_parts (build_sections docs metas) =
       [''--- INTRO ---\<newline>'' @ get_top_chunks (members ''general'' docs metas) 3,
        ''--- PARTIES ---\<newline>'' @ get_top_chunks (members ''parties'' docs metas) 2,
        ''--- DATES ---\<newline>'' @ get_top_chunks (members ''effective_date'' docs metas) 2,
        ''--- TERMINATION ---\<newline>'' @ get_top_chunks (members ''termination'' docs metas) 2,
        ''--- LAW ---\<newline>'' @ get_top_chunks (members ''governing_law'' docs metas) 2,
        ''--- PAYMENT ---\<newline>'' @ get_top_chunks (members ''payment_terms'' docs metas) 2,
        ''--- RISK FACTORS (Liability/IP/Restrictions) ---\<newline>''
          @ get_top_chunks (members ''liability'' docs metas) 3]"
  by (simp add: build_sections_members subseq_members get_top_chunks_def context_parts_def
      take_is_prefix)


theorem sections_take_first_members_in_store_order_witness:
  "members ''termination'' [''A'', ''B'', ''C'', ''D'']
       [meta_of 0 ''termination,parties'', meta_of 1 ''general'', meta_of 2 ''termination'',
        meta_of 3 ''payment_terms,termination'']
     = [''A'', ''C'', ''D'']
   \<and> context_parts (build_sections [''A'', ''B'', ''C'', ''D'']
       [meta_of 0 ''termination,parties'', meta_of 1 ''general'', meta_of 2 ''termination'',
        meta_of 3 ''payment_terms,termination''])
     = [''--- INTRO ---\<newline>A\<newline>...\<newline>B\<newline>...\<newline>C'',
        ''--- PARTIES ---\<newline>A'',
        ''--- DATES ---\<newline>'',
        ''--- TERMINATION ---\<newline>A\<newline>...\<newline>C'',
        ''--- LAW ---\<newline>'',
        ''--- PAYMENT ---\<newline>D'',
        ''--- RISK FACTORS (Liability/IP/Restrictions) ---\<newline>'']"
proof -
  let ?docs = "[''A'', ''B'', ''C'', ''D'']"
  let ?metas = "[meta_of 0 ''termination,parties'', meta_of 1 ''general'', meta_of 2 ''termination'',
        meta_of 3 ''payment_terms,termination'']"
  have m: "members ''general'' ?docs ?metas = [''A'', ''B'', ''C'']"
    "members ''parties'' ?docs ?metas = [''A'']"
    "members ''effective_date'' ?docs ?metas = []"
    "members ''termination'' ?docs ?metas = [''A'', ''C'', ''D'']"
    "members ''governing_law'' ?docs ?metas = []"
    "members ''payment_terms'' ?docs ?metas = [''D'']"
    "members ''liability'' ?docs ?metas = []"
    by code_simp+
  from sections_take_first_members_in_store_order[of ?docs ?metas] m show ?thesis
    by (simp add: get_top_chunks_def)
qed

text \<open>
  C7. The claim is that of each bucket the first chunks in store order appear in its
  rendered section, two of them for every bucket but intro and liability. The code does
  so for seven buckets. For the bucket \<open>confidentiality\<close> it does not: the loop fills
  it in store order, and \<open>context_parts\<close> has no section that reads it. Here two chunks
  are tagged \<open>confidentiality\<close> alone; both are in the bucket, none is selected, and
  their text is nowhere in the context.
\<close>

theorem confidentiality_members_are_never_selected:
  "build_sections [''Keep this secret.'', ''Tell no third party.'']
       [meta_of 5 ''confidentiality'', meta_of 6 ''confidentiality''] ''confidentiality''
     = [''Keep this secret.'', ''Tell no third party.'']
   \<and> context_parts (build_sections [''Keep this secret.'', ''Tell no third party.'']
       [meta_of 5 ''confidentiality'', meta_of 6 ''confidentiality''])
     = [''--- INTRO ---\<newline>'', ''--- PARTIES ---\<newline>'', ''--- DATES ---\<newline>'',
        ''--- TERMINATION ---\<newline>'', ''--- LAW ---\<newline>'', ''--- PAYMENT ---\<newline>'',
        ''--- RISK FACTORS (Liability/IP/Restrictions) ---\<newline>'']
   \<and> \<not> sublist ''Keep this secret.''
         (full_context [''Keep this secret.'', ''Tell no third party.'']
            [meta_of 5 ''confidentiality'', meta_of 6 ''confidentiality''])
   \<and> \<not> sublist ''Tell no third party.''
         (full_context [''Keep this secret.'', ''Tell no third party.'']
            [meta_of 5 ''confidentiality'', meta_of 6 ''confidentiality''])"
  by code_simp

section \<open>Clause tagging\<close>

lemma detect_loop_filter:
  "detect_loop items t acc
     = acc @ map fst (filter (\<lambda>ck. list_ex (\<lambda>kw. sublist kw t) (snd ck)) items)"
  by (induction items t acc rule: detect_loop.induct) auto

lemma sublist_py_lower:
  "sublist kw (py_lower s) \<longleftrightarrow> (\<exists>u. sublist u s \<and> py_lower u = kw)"
  unfolding py_lower_def by (metis map_mono_sublist sublist_map_rightE)

lemma keywords_are_lower_case:
  "list_all (\<lambda>ck. list_all (\<lambda>kw. py_lower kw = kw) (snd ck)) CLAUSE_KEYWORDS"
  by code_simp

lemma keyword_lower_case:
  assumes "(clause, keywords) \<in> set CLAUSE_KEYWORDS" and "kw \<in> set keywords"
  shows "py_lower kw = kw"
proof -
  from keywords_are_lower_case assms(1) have "list_all (\<lambda>kw. py_lower kw = kw) keywords"
    unfolding list_all_iff by fastforce
  with assms(2) show ?thesis
    by (simp add: list_all_iff)
qed

lemma occurs_ignoring_case_code [code]:
  "occurs_ignoring_case kw s \<longleftrightarrow> sublist (py_lower kw) (py_lower s)"
  by (simp add: occurs_ignoring_case_def sublist_py_lower)

lemma detected_iff:
  "clause \<in> set (detect_loop CLAUSE_KEYWORDS (py_lower s) []) \<longleftrightarrow>
     (\<exists>keywords kw. (clause, keywords) \<in> set CLAUSE_KEYWORDS \<and> kw \<in> set keywords
        \<and> occurs_ignoring_case kw s)"
proof
  assume "clause \<in> set (detect_loop CLAUSE_KEYWORDS (py_lower s) [])"
  then obtain kws kw where k: "(clause, kws) \<in> set CLAUSE_KEYWORDS" "kw \<in> set kws"
      "sublist kw (py_lower s)"
    by (auto simp: detect_loop_filter list_ex_iff)
  from k(1,2) have "py_lower kw = kw" by (rule keyword_lower_case)
  with k(3) have "occurs_ignoring_case kw s"
    by (simp add: occurs_ignoring_case_code)
  with k(1,2) show "\<exists>keywords kw. (clause, keywords) \<in> set CLAUSE_KEYWORDS \<and> kw \<in> set keywords
        \<and> occurs_ignoring_case kw s"
    by blast
next
  assume "\<exists>keywords kw. (clause, keywords) \<in> set CLAUSE_KEYWORDS \<and> kw \<in> set keywords
        \<and> occurs_ignoring_case kw s"
  then obtain kws kw where k: "(clause, kws) \<in> set CLAUSE_KEYWORDS" "kw \<in> set kws"
      "occurs_ignoring_case kw s"
    by blast
  from k(1,2) have "py_lower kw = kw" by (rule keyword_lower_case)
  with k(3) have "sublist kw (py_lower s)" by (simp add: occurs_ignoring_case_code)
  with k(1,2) show "clause \<in> set (detect_loop CLAUSE_KEYWORDS (py_lower s) [])"
    by (force simp: detect_loop_filter list_ex_iff)
qed

text \<open>The analyzer reads the tags with a test for a substring. On a value returned by the
  tagger this test finds a clause type of the table exactly when the type was detected: no
  name of the table holds a comma, is part of another name or is part of \<open>general\<close>.\<close>

lemma sublist_across_separator:
  assumes "sep \<notin> set c" and "sublist c (xs @ sep # ys)"
  shows "sublist c xs \<or> sublist c ys"
proof -
  from assms(2) consider "sublist c xs" | "sublist c (sep # ys)"
    | c1 c2 where "c = c1 @ c2" "suffix c1 xs" "prefix c2 (sep # ys)"
    unfolding sublist_append by blast
  then show ?thesis
  proof cases
    case 1
    then show ?thesis by simp
  next
    case 2
    then have "prefix c (sep # ys) \<or> sublist c ys"
      by (cases c) (simp_all add: sublist_Cons_right)
    moreover have "c = []" if "prefix c (sep # ys)"
      using that assms(1) by (cases c) auto
    ultimately show ?thesis by auto
  next
    case 3
    from 3(3) assms(1) 3(1) have "c2 = []"
      by (cases c2) auto
    with 3 have "suffix c xs" by simp
    then show ?thesis by (simp add: suffix_imp_sublist)
  qed
qed

lemma sublist_py_join_name:
  assumes "sep \<notin> set c" and "c \<noteq> []"
  shows "sublist c (py_join [sep] names) \<Longrightarrow> \<exists>n \<in> set names. sublist c n"
proof (induction "[sep]" names rule: py_join.induct)
  case 1
  with assms(2) show ?case by simp
next
  case (2 x)
  then show ?case by simp
next
  case (3 x y ys)
  from "3.prems" have "sublist c (x @ sep # py_join [sep] (y # ys))" by simp
  with assms(1) have "sublist c x \<or> sublist c (py_join [sep] (y # ys))"
    by (rule sublist_across_separator)
  with "3.hyps" show ?case by auto
qed

lemma clause_names_facts:
  "list_all (\<lambda>c. c \<noteq> [] \<and> CHR '','' \<notin> set c \<and> \<not> sublist c ''general''
              \<and> list_all (\<lambda>n. sublist c n = (c = n)) (map fst CLAUSE_KEYWORDS))
     (map fst CLAUSE_KEYWORDS)"
  by code_simp

lemma detected_names: "set (detect_loop CLAUSE_KEYWORDS t []) \<subseteq> set (map fst CLAUSE_KEYWORDS)"
  by (auto simp: detect_loop_filter)

lemma tag_test_iff:
  assumes "clause \<in> set (map fst CLAUSE_KEYWORDS)"
  shows "sublist clause (detect_clause_types s)
           \<longleftrightarrow> clause \<in> set (detect_loop CLAUSE_KEYWORDS (py_lower s) [])"
proof -
  let ?detected = "detect_loop CLAUSE_KEYWORDS (py_lower s) []"
  from clause_names_facts assms have c: "clause \<noteq> []" "CHR '','' \<notin> set clause"
    "\<not> sublist clause ''general''"
    and eq: "\<And>n. n \<in> set (map fst CLAUSE_KEYWORDS) \<Longrightarrow> sublist clause n = (clause = n)"
    unfolding list_all_iff by blast+
  show ?thesis
  proof (cases "?detected = []")
    case True
    then have "detect_clause_types s = ''general''"
      by (simp add: detect_clause_types_def Let_def)
    with c(3) True show ?thesis by simp
  next
    case False
    then have out: "detect_clause_types s = py_join [CHR '',''] ?detected"
      by (simp add: detect_clause_types_def Let_def)
    show ?thesis
    proof
      assume "sublist clause (detect_clause_types s)"
      with out c(1,2) obtain n where n: "n \<in> set ?detected" "sublist clause n"
        using sublist_py_join_name[of "CHR '',''" clause ?detected] by auto
      from n(1) detected_names have "n \<in> set (map fst CLAUSE_KEYWORDS)" by blast
      with eq n(2) have "clause = n" by simp
      with n(1) show "clause \<in> set ?detected" by simp
    next
      assume "clause \<in> set ?detected"
      then show "sublist clause (detect_clause_types s)"
        unfolding out by (rule sublist_py_join)
    qed
  qed
qed

text \<open>
  C8. For every text the tagger detects a clause type exactly when one of the trigger
  phrases of that type occurs in the text, case ignored; each type is decided on its own,
  so a text with a termination trigger and a parties trigger gets both labels. The value
  returned is the detected types joined with commas, in the order of the table, and it is
  exactly \<open>general\<close> when no type matches. Read as the analyzer reads it, the value
  returned names a clause type of the table exactly when one of its triggers occurs.
\<close>

theorem detect_clause_types_labels:
  "(clause \<in> set (detect_loop CLAUSE_KEYWORDS (py_lower s) []) \<longleftrightarrow>
      (\<exists>keywords kw. (clause, keywords) \<in> set CLAUSE_KEYWORDS \<and> kw \<in> set keywords
         \<and> occurs_ignoring_case kw s))
   \<and> detect_clause_types s
       = (if detect_loop CLAUSE_KEYWORDS (py_lower s) [] = [] then ''general''
          else py_join '','' (detect_loop CLAUSE_KEYWORDS (py_lower s) []))
   \<and> ((\<forall>clause keywords kw. (clause, keywords) \<in> set CLAUSE_KEYWORDS \<and> kw \<in> set keywords
           \<longrightarrow> \<not> occurs_ignoring_case kw s)
        \<longrightarrow> detect_clause_types s = ''general'')
   \<and> (clause \<in> set (map fst CLAUSE_KEYWORDS) \<longrightarrow>
        (sublist clause (detect_clause_types s) \<longleftrightarrow>
           (\<exists>keywords kw. (clause, keywords) \<in> set CLAUSE_KEYWORDS \<and> kw \<in> set keywords
              \<and> occurs_ignoring_case kw s)))
   \<and> ((''termination'', kws1) \<in> set CLAUSE_KEYWORDS \<and> kw1 \<in> set kws1
        \<and> occurs_ignoring_case kw1 s
        \<and> (''parties'', kws2) \<in> set CLAUSE_KEYWORDS \<and> kw2 \<in> set kws2
        \<and> occurs_ignoring_case kw2 s
        \<longrightarrow> ''termination'' \<in> set (detect_loop CLAUSE_KEYWORDS (py_lower s) [])
            \<and> ''parties'' \<in> set (detect_loop CLAUSE_KEYWORDS (py_lower s) []))"
proof -
  let ?detected = "detect_loop CLAUSE_KEYWORDS (py_lower s) []"
  have a: "detect_clause_types s = (if ?detected = [] then ''general'' else py_join '','' ?detected)"
    by (simp add: detect_clause_types_def Let_def)
  have b: "detect_clause_types s = ''general''"
    if "\<forall>clause keywords kw. (clause, keywords) \<in> set CLAUSE_KEYWORDS \<and> kw \<in> set keywords
           \<longrightarrow> \<not> occurs_ignoring_case kw s"
  proof -
    have "x \<notin> set ?detected" for x
      using that detected_iff[of x s] by blast
    then have "?detected = []"
      by (cases ?detected) auto
    then show ?thesis by (simp add: a)
  qed
  have c: "''termination'' \<in> set ?detected \<and> ''parties'' \<in> set ?detected"
    if "(''termination'', kws1) \<in> set CLAUSE_KEYWORDS" "kw1 \<in> set kws1"
       "occurs_ignoring_case kw1 s"
       "(''parties'', kws2) \<in> set CLAUSE_KEYWORDS" "kw2 \<in> set kws2"
       "occurs_ignoring_case kw2 s"
    using that detected_iff[of _ s] by blast
  have d: "sublist clause (detect_clause_types s) \<longleftrightarrow>
           (\<exists>keywords kw. (clause, keywords) \<in> set CLAUSE_KEYWORDS \<and> kw \<in> set keywords
              \<and> occurs_ignoring_case kw s)"
    if "clause \<in> set (map fst CLAUSE_KEYWORDS)"
    using tag_test_iff[OF that, of s] detected_iff[of clause s] by simp
  from a b c d detected_iff[of clause s] show ?thesis
    by blast
qed

theorem detect_clause_types_labels_witness:
  "(''termination'', [''terminate'', ''termination'', ''cancel'', ''cancellation'', ''rescind'',
         ''end of agreement'', ''convenience'', ''breach'', ''notice period'']) \<in> set CLAUSE_KEYWORDS
   \<and> occurs_ignoring_case ''terminate'' ''The Parties may TERMINATE.''
   \<and> occurs_ignoring_case ''parties'' ''The Parties may TERMINATE.''
   \<and> ''termination'' \<in> set (detect_loop CLAUSE_KEYWORDS (py_lower ''The Parties may TERMINATE.'') [])
   \<and> ''parties'' \<in> set (detect_loop CLAUSE_KEYWORDS (py_lower ''The Parties may TERMINATE.'') [])
   \<and> detect_clause_types ''The Parties may TERMINATE.'' = ''termination,parties''
   \<and> sublist ''parties'' (detect_clause_types ''The Parties may TERMINATE.'')
   \<and> detect_clause_types ''Hello, world.'' = ''general''"
proof -
  let ?s = "''The Parties may TERMINATE.''"
  let ?k1 = "[''terminate'', ''termination'', ''cancel'', ''cancellation'', ''rescind'',
         ''end of agreement'', ''convenience'', ''breach'', ''notice period'']"
  let ?k2 = "[''parties'', ''between'', ''among'', ''entered into by'', ''buyer'', ''seller'',
         ''provider'', ''customer'', ''licensor'', ''licensee'', ''grantor'', ''grantee'',
         ''landlord'', ''tenant'', ''contractor'']"
  have t: "(''termination'', ?k1) \<in> set CLAUSE_KEYWORDS" "(''parties'', ?k2) \<in> set CLAUSE_KEYWORDS"
    by (simp_all add: CLAUSE_KEYWORDS_def)
  have m: "''terminate'' \<in> set ?k1" "''parties'' \<in> set ?k2"
    by simp_all
  have o: "occurs_ignoring_case ''terminate'' ?s" "occurs_ignoring_case ''parties'' ?s"
    by code_simp+
  have d: "detect_loop CLAUSE_KEYWORDS (py_lower ?s) [] = [''termination'', ''parties'']"
    by code_simp
  have g: "detect_loop CLAUSE_KEYWORDS (py_lower ''Hello, world.'') [] = []"
    by code_simp
  have 1: "''termination'' \<in> set (detect_loop CLAUSE_KEYWORDS (py_lower ?s) [])
           \<and> ''parties'' \<in> set (detect_loop CLAUSE_KEYWORDS (py_lower ?s) [])"
    using detect_clause_types_labels[of _ ?s ?k1 "''terminate''" ?k2 "''parties''"] t m o
    by blast
  have 2: "detect_clause_types ?s = ''termination,parties''"
    using detect_clause_types_labels[of _ ?s] by (simp add: d)
  have 3: "detect_clause_types ''Hello, world.'' = ''general''"
    using detect_clause_types_labels[of _ "''Hello, world.''"] by (simp add: g)
  have p: "''parties'' \<in> set (map fst CLAUSE_KEYWORDS)"
    using t(2) by force
  have 4: "sublist ''parties'' (detect_clause_types ?s)"
    using detect_clause_types_labels[of "''parties''" ?s] p t(2) m(2) o(2) by blast
  from t(1) o 1 2 3 4 show ?thesis
    by blast
qed


section \<open>Order of the ingestion steps\<close>

lemma all_before_append:
  "all_before P Q (xs @ ys)
     \<longleftrightarrow> all_before P Q xs \<and> all_before P Q ys \<and> \<not> (list_ex Q xs \<and> list_ex P ys)"
  by (induction xs) auto

lemma all_before_none: "\<not> list_ex Q xs \<Longrightarrow> all_before P Q xs"
  by (induction xs) auto

lemma all_before_no_first: "\<not> list_ex P xs \<Longrightarrow> all_before P Q xs"
  by (induction xs) auto

lemma no_kind_in_maps:
  "\<not> list_ex is_Embed (map Mask cs)" "\<not> list_ex is_Embed (map Tag cs)"
  "\<not> list_ex is_Tag (map Mask cs)" "\<not> list_ex is_Mask (map Tag cs)"
  "\<not> list_ex is_Upsert (map Mask cs)" "\<not> list_ex is_Upsert (map Tag cs)"
  by (induction cs) auto

lemma kind_in_maps:
  "list_ex is_Mask (map Mask cs) \<longleftrightarrow> cs \<noteq> []" "list_ex is_Tag (map Tag cs) \<longleftrightarrow> cs \<noteq> []"
  by (induction cs) auto

lemma ingest_file_from_trace: "ingest_file E trace file_path = trace @ ingest_file E [] file_path"
  by (simp add: ingest_file_def Let_def)

text \<open>
  C9, as amended. For each document that yields text and chunks the calls are made in the
  order extract, chunk, mask, embed, tag, upsert: every chunk is masked before the
  embeddings are computed, the embeddings are computed before the first chunk is tagged,
  and the store is called last. Embedding and tagging are both given the masked chunks,
  which are also the documents stored.
\<close>

theorem ingest_file_call_order:
  assumes "raw_text = extract_text_from_pdf E file_path" and "raw_text \<noteq> []"
    and "raw_chunks = split_text E raw_text" and "raw_chunks \<noteq> []"
    and "chunks = map (mask_pii E) raw_chunks"
  shows "(\<exists>metas ids.
            ingest_file E [] file_path
              = [Extract file_path, Chunk raw_text] @ map Mask raw_chunks @ [Embed chunks]
                @ map Tag chunks @ [Upsert chunks (embed_texts E chunks) metas ids]
            \<and> map clause_types metas = map (\<lambda>c. Some (detect_clause_types c)) chunks)
       \<and> all_before is_Mask is_Embed (ingest_file E [] file_path)
       \<and> all_before is_Embed is_Tag (ingest_file E [] file_path)
       \<and> all_before is_Mask is_Tag (ingest_file E [] file_path)
       \<and> all_before is_Tag is_Upsert (ingest_file E [] file_path)
       \<and> \<not> all_before is_Tag is_Embed (ingest_file E [] file_path)"
proof -
  define metas where "metas = map (\<lambda>(i, chunk).
       \<lparr>source = Some (basename file_path),
        doc_type = Some (if sublist ''policies'' file_path then ''policy'' else ''contract''),
        chunk_index = Some (int i),
        clause_types = Some (detect_clause_types chunk)\<rparr>) (enumerate 0 chunks)"
  define ids where "ids = map (\<lambda>i. basename file_path @ ''_'' @ str_nat i) [0..<length chunks]"
  have tr: "ingest_file E [] file_path
              = [Extract file_path, Chunk raw_text] @ map Mask raw_chunks @ [Embed chunks]
                @ map Tag chunks @ [Upsert chunks (embed_texts E chunks) metas ids]"
    using assms by (simp add: ingest_file_def Let_def metas_def ids_def)
  have "map clause_types metas
          = map ((\<lambda>c. Some (detect_clause_types c)) \<circ> snd) (enumerate 0 chunks)"
    by (simp add: metas_def case_prod_beta comp_def)
  also have "\<dots> = map (\<lambda>c. Some (detect_clause_types c)) (map snd (enumerate 0 chunks))"
    by (simp only: map_map)
  also have "\<dots> = map (\<lambda>c. Some (detect_clause_types c)) chunks"
    by (simp only: map_snd_enumerate)
  finally have ct: "map clause_types metas = map (\<lambda>c. Some (detect_clause_types c)) chunks" .
  from assms(4,5) have ne: "chunks \<noteq> []" by simp
  have o1: "all_before is_Mask is_Embed (ingest_file E [] file_path)"
    unfolding tr by (simp add: all_before_append all_before_none all_before_no_first no_kind_in_maps)
  have o2: "all_before is_Embed is_Tag (ingest_file E [] file_path)"
    unfolding tr by (simp add: all_before_append all_before_none all_before_no_first no_kind_in_maps)
  have o3: "all_before is_Mask is_Tag (ingest_file E [] file_path)"
    unfolding tr by (simp add: all_before_append all_before_none all_before_no_first no_kind_in_maps)
  have o4: "all_before is_Tag is_Upsert (ingest_file E [] file_path)"
    unfolding tr by (simp add: all_before_append all_before_none all_before_no_first no_kind_in_maps)
  have o5: "\<not> all_before is_Tag is_Embed (ingest_file E [] file_path)"
    unfolding tr using ne by (simp add: all_before_append no_kind_in_maps kind_in_maps)
  from tr ct o1 o2 o3 o4 o5 show ?thesis
    by blast
qed

theorem ingest_file_call_order_witness:
  "extract_text_from_pdf demo_collaborators ''docs/contracts/nda.pdf''
     = ''This Agreement may be terminated upon 30 days notice''
   \<and> split_text demo_collaborators ''This Agreement may be terminated upon 30 days notice''
     = [''This Agreement may be terminated upon 30 days notice'']
   \<and> all_before is_Mask is_Embed (ingest_file demo_collaborators [] ''docs/contracts/nda.pdf'')
   \<and> all_before is_Embed is_Tag (ingest_file demo_collaborators [] ''docs/contracts/nda.pdf'')
   \<and> all_before is_Tag is_Upsert (ingest_file demo_collaborators [] ''docs/contracts/nda.pdf'')"
proof -
  let ?t = "''This Agreement may be terminated upon 30 days notice''"
  have a: "?t = extract_text_from_pdf demo_collaborators ''docs/contracts/nda.pdf''" "?t \<noteq> []"
    "[?t] = split_text demo_collaborators ?t" "[?t] \<noteq> []"
    "[?t] = map (mask_pii demo_collaborators) [?t]"
    by (simp_all add: demo_collaborators_def)
  from ingest_file_call_order[OF a] a(1,3) show ?thesis
    by simp
qed

text \<open>
  C9 as stated fails: in the run on one contract of one chunk the embeddings are computed
  before the chunk is tagged.
\<close>

theorem embeddings_are_computed_before_tags:
  "ingest_documents demo_collaborators [''docs/contracts/nda.pdf'']
     = [Extract ''docs/contracts/nda.pdf'',
        Chunk ''This Agreement may be terminated upon 30 days notice'',
        Mask ''This Agreement may be terminated upon 30 days notice'',
        Embed [''This Agreement may be terminated upon 30 days notice''],
        Tag ''This Agreement may be terminated upon 30 days notice'',
        Upsert [''This Agreement may be terminated upon 30 days notice''] [52]
          [\<lparr>source = Some ''nda.pdf'', doc_type = Some ''contract'', chunk_index = Some 0,
            clause_types = Some ''termination''\<rparr>]
          [''nda.pdf_0'']]
   \<and> \<not> all_before is_Tag is_Embed (ingest_documents demo_collaborators [''docs/contracts/nda.pdf''])"
  by code_simp


end
